theory Spec2Isabelle
  imports Main "HOL-Library.Sublist"
begin

section \<open>The counter store (group\_stats.db)\<close>

text \<open>
  Strings are lists of bytes: a character outside ASCII is its UTF-8 encoding.
  The two tables of \<^verbatim>\<open>init_database\<close> are lists of rows in insertion order, so that
  primary-key uniqueness is a property to be proved and not a consequence of the
  representation. A table that has not been created is \<open>None\<close>.
  The program stores integers in the two counter columns and only ever leaves
  \<^verbatim>\<open>member_count\<close> without a value, so \<^verbatim>\<open>member_count\<close> is the one nullable
  column of the model. SQLite integers do not wrap around (an overflowing sum is
  promoted to a floating point number), so the counters are mathematical integers.
\<close>

record group_stats_row =
  gs_group_id :: int
  gs_date :: string
  gs_member_count :: "int option"
  gs_messages_count :: int

record user_activity_row =
  ua_user_id :: int
  ua_group_id :: int
  ua_username :: "string option"
  ua_first_name :: string
  ua_last_message :: string
  ua_message_count :: int

record store =
  group_stats :: "group_stats_row list option"
  user_activity :: "user_activity_row list option"

datatype exn = TelegramError string | OperationalError | AttributeError

text \<open>\<^verbatim>\<open>CREATE TABLE IF NOT EXISTS\<close>: an existing table is left as it is.\<close>

definition create_table_if_not_exists :: "'r list option \<Rightarrow> 'r list option" where
  "create_table_if_not_exists t = (case t of None \<Rightarrow> Some [] | Some rows \<Rightarrow> Some rows)"

definition init_database :: "store \<Rightarrow> store" where
  "init_database db =
     (let gs = create_table_if_not_exists (group_stats db);
          ua = create_table_if_not_exists (user_activity db)
      in \<lparr>group_stats = gs, user_activity = ua\<rparr>)"

text \<open>The store of a database file that has just been created by \<^verbatim>\<open>sqlite3.connect\<close>.\<close>

definition new_file :: store where
  "new_file = \<lparr>group_stats = None, user_activity = None\<rparr>"

subsection \<open>The SQL statements of track\_activity\<close>

definition gs_key :: "group_stats_row \<Rightarrow> int \<times> string" where
  "gs_key r = (gs_group_id r, gs_date r)"

definition ua_key :: "user_activity_row \<Rightarrow> int \<times> int" where
  "ua_key r = (ua_user_id r, ua_group_id r)"

text \<open>\<^verbatim>\<open>SELECT ... WHERE group_id = ? AND date = ?\<close>: the first matching row, if any.\<close>

definition select_group_stats :: "group_stats_row list \<Rightarrow> int \<Rightarrow> string \<Rightarrow> group_stats_row option" where
  "select_group_stats rows g d = find (\<lambda>r. gs_group_id r = g \<and> gs_date r = d) rows"

definition select_user_activity :: "user_activity_row list \<Rightarrow> int \<Rightarrow> int \<Rightarrow> user_activity_row option" where
  "select_user_activity rows u g = find (\<lambda>r. ua_user_id r = u \<and> ua_group_id r = g) rows"

definition coalesce :: "'a option \<Rightarrow> 'a \<Rightarrow> 'a" where
  "coalesce v d = (case v of None \<Rightarrow> d | Some x \<Rightarrow> x)"

text \<open>
  \<^verbatim>\<open>INSERT OR REPLACE\<close>: the rows that conflict with the new row on the primary key
  are deleted, then the new row is inserted. The values of the new row are computed
  before the deletion.
\<close>

definition insert_or_replace_group_stats :: "group_stats_row \<Rightarrow> group_stats_row list \<Rightarrow> group_stats_row list" where
  "insert_or_replace_group_stats new rows = filter (\<lambda>r. gs_key r \<noteq> gs_key new) rows @ [new]"

definition insert_or_replace_user_activity :: "user_activity_row \<Rightarrow> user_activity_row list \<Rightarrow> user_activity_row list" where
  "insert_or_replace_user_activity new rows = filter (\<lambda>r. ua_key r \<noteq> ua_key new) rows @ [new]"

subsection \<open>Updates\<close>

record user =
  user_id :: int
  username :: "string option"
  first_name :: string

record chat =
  chat_id :: int
  chat_type :: string
  title :: "string option"

record replied_message =
  from_user :: "user option"

record message =
  reply_to_message :: "replied_message option"

text \<open>
  An update as the handlers read it: the sender, the chat, the message and the
  arguments of the command (\<^verbatim>\<open>context.args\<close>). \<^verbatim>\<open>update.message\<close> is \<^verbatim>\<open>None\<close> when the
  update is not a new message: the command handlers are registered without a filter
  and so also run on a command in an edited message, which has a sender and a chat
  but no \<^verbatim>\<open>message\<close>. Reading an attribute of \<^verbatim>\<open>None\<close> raises \<^verbatim>\<open>AttributeError\<close>.
\<close>

record update =
  effective_user :: user
  effective_chat :: chat
  message :: "message option"
  args :: "string list"

text \<open>
  What \<^verbatim>\<open>datetime.now()\<close> gives when a handler runs: the time in seconds and its two
  renderings, \<^verbatim>\<open>strftime('%Y-%m-%d')\<close> and \<^verbatim>\<open>strftime('%Y-%m-%d %H:%M:%S')\<close>.
\<close>

record clock =
  now :: int
  today :: string
  timestamp :: string

subsection \<open>track\_activity\<close>

text \<open>
  The two statements of the handler, on \<^verbatim>\<open>user_activity\<close> and then on
  \<^verbatim>\<open>group_stats\<close>, each as a function on the rows of its table.
  A statement on a table that does not exist raises \<^verbatim>\<open>sqlite3.OperationalError\<close>;
  the handler then never reaches \<^verbatim>\<open>conn.commit()\<close> and the file keeps its old content.
\<close>

definition upsert_user_activity :: "user \<Rightarrow> chat \<Rightarrow> string \<Rightarrow> user_activity_row list \<Rightarrow> user_activity_row list" where
  "upsert_user_activity usr cht tdy ua =
     insert_or_replace_user_activity
       \<lparr>ua_user_id = user_id usr, ua_group_id = chat_id cht,
        ua_username = username usr, ua_first_name = first_name usr,
        ua_last_message = tdy,
        ua_message_count =
          coalesce (map_option ua_message_count
            (select_user_activity ua (user_id usr) (chat_id cht))) 0 + 1\<rparr> ua"

definition upsert_group_stats :: "chat \<Rightarrow> string \<Rightarrow> group_stats_row list \<Rightarrow> group_stats_row list" where
  "upsert_group_stats cht tdy gs =
     insert_or_replace_group_stats
       \<lparr>gs_group_id = chat_id cht, gs_date = tdy,
        gs_member_count =
          map_option (\<lambda>r. coalesce (gs_member_count r) 0)
            (select_group_stats gs (chat_id cht) tdy),
        gs_messages_count =
          coalesce (map_option gs_messages_count
            (select_group_stats gs (chat_id cht) tdy)) 0 + 1\<rparr> gs"

definition track_activity :: "clock \<Rightarrow> update \<Rightarrow> store \<Rightarrow> exn + store" where
  "track_activity clk upd db =
     (if chat_type (effective_chat upd) = ''private'' then Inr db
      else
        let usr = effective_user upd;
            cht = effective_chat upd;
            tdy = today clk
        in case user_activity db of
             None \<Rightarrow> Inl OperationalError
           | Some ua \<Rightarrow>
               (case group_stats db of
                  None \<Rightarrow> Inl OperationalError
                | Some gs \<Rightarrow>
                    Inr \<lparr>group_stats = Some (upsert_group_stats cht tdy gs),
                         user_activity = Some (upsert_user_activity usr cht tdy ua)\<rparr>))"

text \<open>
  The polling loop hands the message updates to \<^verbatim>\<open>track_activity\<close> one at a time; an
  update whose handler raises leaves the store as it was and the loop goes on.
\<close>

fun track_all :: "(clock \<times> update) list \<Rightarrow> store \<Rightarrow> store" where
  "track_all [] db = db"
| "track_all ((clk, upd) # rest) db =
     track_all rest (case track_activity clk upd db of Inl e \<Rightarrow> db | Inr db' \<Rightarrow> db')"

section \<open>The messaging platform\<close>

text \<open>
  The handlers reach the platform through \<^verbatim>\<open>context.bot\<close> and
  \<^verbatim>\<open>update.message.reply_text\<close>. Each remote call either returns or raises
  \<^verbatim>\<open>TelegramError\<close> with a message; which of the two is for the platform to decide,
  so the platform is a parameter: a state of any type \<open>'p\<close> and one function per
  remote call, from the state to the outcome (\<open>Inl\<close> the message of the error) and
  the next state.
\<close>

record chat_member =
  member_id :: int
  status :: string

record chat_permissions =
  can_send_messages :: "bool option"
  can_send_media_messages :: "bool option"
  can_send_polls :: "bool option"
  can_send_other_messages :: "bool option"
  can_add_web_page_previews :: "bool option"
  can_change_info :: "bool option"
  can_invite_users :: "bool option"
  can_pin_messages :: "bool option"

type_synonym ('p, 'a) remote = "'p \<Rightarrow> (string + 'a) \<times> 'p"

record 'p telegram =
  bot_id :: int
  get_chat_member :: "int \<Rightarrow> int \<Rightarrow> ('p, chat_member) remote"
  get_chat_member_count :: "int \<Rightarrow> ('p, int) remote"
  get_chat_administrators :: "int \<Rightarrow> ('p, chat_member list) remote"
  set_chat_permissions :: "int \<Rightarrow> chat_permissions \<Rightarrow> ('p, unit) remote"
  restrict_chat_member :: "int \<Rightarrow> int \<Rightarrow> chat_permissions \<Rightarrow> int option \<Rightarrow> ('p, unit) remote"
  ban_chat_member :: "int \<Rightarrow> int \<Rightarrow> ('p, unit) remote"
  unban_chat_member :: "int \<Rightarrow> int \<Rightarrow> ('p, unit) remote"
  send_message :: "int \<Rightarrow> string \<Rightarrow> string option \<Rightarrow> ('p, unit) remote"

text \<open>
  The remote calls a handler issues are recorded, in order, each with what the
  platform answered. \<open>ReplyText\<close> carries the chat, the text and the parse mode;
  \<open>RestrictChatMember\<close> the chat, the user, the permissions and \<^verbatim>\<open>until_date\<close>.
\<close>

datatype request =
    GetChatMember int int
  | GetChatMemberCount int
  | GetChatAdministrators int
  | SetChatPermissions int chat_permissions
  | RestrictChatMember int int chat_permissions "int option"
  | BanChatMember int int
  | UnbanChatMember int int
  | ReplyText int string "string option"

datatype answer =
    Error string
  | Member chat_member
  | Count int
  | Members "chat_member list"
  | Done

type_synonym event = "request \<times> answer"

text \<open>
  A handler run from a platform state gives its outcome (\<open>Inl\<close> an exception that
  leaves the handler), the remote calls it issued and the platform state it leaves.
\<close>

type_synonym ('p, 'a) action = "'p \<Rightarrow> (exn + 'a) \<times> event list \<times> 'p"

definition returns :: "'a \<Rightarrow> ('p, 'a) action" where
  "returns x = (\<lambda>p. (Inr x, [], p))"

definition raises :: "exn \<Rightarrow> ('p, 'a) action" where
  "raises e = (\<lambda>p. (Inl e, [], p))"

definition and_then :: "('p, 'a) action \<Rightarrow> ('a \<Rightarrow> ('p, 'b) action) \<Rightarrow> ('p, 'b) action" where
  "and_then m k =
     (\<lambda>p. case m p of
        (Inl e, evs, p') \<Rightarrow> (Inl e, evs, p')
      | (Inr x, evs, p') \<Rightarrow> (case k x p' of (r, evs', p'') \<Rightarrow> (r, evs @ evs', p'')))"

text \<open>\<^verbatim>\<open>try: ... except TelegramError as e: ...\<close>; any other exception passes through.\<close>

definition try_except :: "('p, 'a) action \<Rightarrow> (string \<Rightarrow> ('p, 'a) action) \<Rightarrow> ('p, 'a) action" where
  "try_except m h =
     (\<lambda>p. case m p of
        (Inl (TelegramError msg), evs, p') \<Rightarrow>
          (case h msg p' of (r, evs', p'') \<Rightarrow> (r, evs @ evs', p''))
      | (Inl OperationalError, evs, p') \<Rightarrow> (Inl OperationalError, evs, p')
      | (Inl AttributeError, evs, p') \<Rightarrow> (Inl AttributeError, evs, p')
      | (Inr x, evs, p') \<Rightarrow> (Inr x, evs, p'))"

definition remote_call :: "request \<Rightarrow> ('a \<Rightarrow> answer) \<Rightarrow> ('p, 'a) remote \<Rightarrow> ('p, 'a) action" where
  "remote_call rq tag f =
     (\<lambda>p. case f p of
        (Inl msg, p') \<Rightarrow> (Inl (TelegramError msg), [(rq, Error msg)], p')
      | (Inr x, p') \<Rightarrow> (Inr x, [(rq, tag x)], p'))"

definition bot_get_chat_member :: "'p telegram \<Rightarrow> int \<Rightarrow> int \<Rightarrow> ('p, chat_member) action" where
  "bot_get_chat_member api c u = remote_call (GetChatMember c u) Member (get_chat_member api c u)"

definition bot_get_chat_member_count :: "'p telegram \<Rightarrow> int \<Rightarrow> ('p, int) action" where
  "bot_get_chat_member_count api c =
     remote_call (GetChatMemberCount c) Count (get_chat_member_count api c)"

definition bot_get_chat_administrators :: "'p telegram \<Rightarrow> int \<Rightarrow> ('p, chat_member list) action" where
  "bot_get_chat_administrators api c =
     remote_call (GetChatAdministrators c) Members (get_chat_administrators api c)"

definition bot_set_chat_permissions :: "'p telegram \<Rightarrow> int \<Rightarrow> chat_permissions \<Rightarrow> ('p, unit) action" where
  "bot_set_chat_permissions api c perms =
     remote_call (SetChatPermissions c perms) (\<lambda>_. Done) (set_chat_permissions api c perms)"

definition bot_restrict_chat_member ::
  "'p telegram \<Rightarrow> int \<Rightarrow> int \<Rightarrow> chat_permissions \<Rightarrow> int option \<Rightarrow> ('p, unit) action" where
  "bot_restrict_chat_member api c u perms until =
     remote_call (RestrictChatMember c u perms until) (\<lambda>_. Done)
       (restrict_chat_member api c u perms until)"

definition bot_ban_chat_member :: "'p telegram \<Rightarrow> int \<Rightarrow> int \<Rightarrow> ('p, unit) action" where
  "bot_ban_chat_member api c u = remote_call (BanChatMember c u) (\<lambda>_. Done) (ban_chat_member api c u)"

definition bot_unban_chat_member :: "'p telegram \<Rightarrow> int \<Rightarrow> int \<Rightarrow> ('p, unit) action" where
  "bot_unban_chat_member api c u =
     remote_call (UnbanChatMember c u) (\<lambda>_. Done) (unban_chat_member api c u)"

text \<open>
  \<^verbatim>\<open>update.message.reply_text(text, parse_mode=...)\<close> sends the text to the chat of the
  message. Without a message the attribute lookup raises before anything is sent.
\<close>

definition reply_text :: "'p telegram \<Rightarrow> update \<Rightarrow> string \<Rightarrow> string option \<Rightarrow> ('p, unit) action" where
  "reply_text api upd text parse_mode =
     (case message upd of
        None \<Rightarrow> raises AttributeError
      | Some msg \<Rightarrow>
          remote_call (ReplyText (chat_id (effective_chat upd)) text parse_mode) (\<lambda>_. Done)
            (send_message api (chat_id (effective_chat upd)) text parse_mode))"

subsection \<open>Texts\<close>

definition newline :: string where
  "newline = [CHR 0x0A]"

definition cross_mark :: string where
  "cross_mark = [CHR 0xE2, CHR 0x9D, CHR 0x8C]"

definition robot_face :: string where
  "robot_face = [CHR 0xF0, CHR 0x9F, CHR 0xA4, CHR 0x96]"

definition locked :: string where
  "locked = [CHR 0xF0, CHR 0x9F, CHR 0x94, CHR 0x92]"

definition unlocked :: string where
  "unlocked = [CHR 0xF0, CHR 0x9F, CHR 0x94, CHR 0x93]"

definition muted_speaker :: string where
  "muted_speaker = [CHR 0xF0, CHR 0x9F, CHR 0x94, CHR 0x87]"

definition loud_speaker :: string where
  "loud_speaker = [CHR 0xF0, CHR 0x9F, CHR 0x94, CHR 0x8A]"

definition no_entry :: string where
  "no_entry = [CHR 0xF0, CHR 0x9F, CHR 0x9A, CHR 0xAB]"

definition boot :: string where
  "boot = [CHR 0xF0, CHR 0x9F, CHR 0x91, CHR 0xA2]"

definition bar_chart :: string where
  "bar_chart = [CHR 0xF0, CHR 0x9F, CHR 0x93, CHR 0x8A]"

definition busts :: string where
  "busts = [CHR 0xF0, CHR 0x9F, CHR 0x91, CHR 0xA5]"

definition crown :: string where
  "crown = [CHR 0xF0, CHR 0x9F, CHR 0x91, CHR 0x91]"

definition mobile_phone :: string where
  "mobile_phone = [CHR 0xF0, CHR 0x9F, CHR 0x93, CHR 0xB1]"

definition speech_balloon :: string where
  "speech_balloon = [CHR 0xF0, CHR 0x9F, CHR 0x92, CHR 0xAC]"

definition calendar :: string where
  "calendar = [CHR 0xF0, CHR 0x9F, CHR 0x93, CHR 0x85]"

definition wrench :: string where
  "wrench = [CHR 0xF0, CHR 0x9F, CHR 0x94, CHR 0xA7]"

definition information :: string where
  "information = [CHR 0xE2, CHR 0x84, CHR 0xB9]"

definition variation_selector :: string where
  "variation_selector = [CHR 0xEF, CHR 0xB8, CHR 0x8F]"

definition start_text :: string where
  "start_text =
     robot_face @ '' Group Manager Bot is now active!'' @ newline @ newline @
     ''I can help you manage this group and provide statistics.'' @ newline @
     ''Use /help to see available commands.''"

definition help_text :: string where
  "help_text =
     newline @ wrench @ '' **Group Manager Bot Commands**'' @ newline @ newline @ bar_chart @
     '' **Statistics:**'' @ newline @ ''/stats - Show group statistics'' @ newline @ newline @
     locked @ '' **Group Management (Admin Only):**'' @ newline @
     ''/lock - Lock the group (only admins can send messages)'' @ newline @
     ''/unlock - Unlock the group (everyone can send messages)'' @ newline @ newline @ busts @
     '' **User Management (Admin Only):**'' @ newline @ ''/mute @username - Mute a user'' @
     newline @ ''/unmute @username - Unmute a user'' @ newline @
     ''/ban @username - Ban a user from the group'' @ newline @
     ''/kick @username - Kick a user from the group'' @ newline @ newline @ information @
     variation_selector @ '' **Other:**'' @ newline @ ''/help - Show this help message'' @
     newline @ newline @
     ''**Note:** Admin commands require both you and the bot to have administrator privileges.'' @
     newline @ ''        ''"

definition only_admins :: string where
  "only_admins = cross_mark @ '' Only admins can use this command!''"

text \<open>\<^verbatim>\<open>str\<close> of an integer: its decimal digits, after a minus sign when it is negative.\<close>

fun str_nat :: "nat \<Rightarrow> string" where
  "str_nat n =
     (if n < 10 then [char_of (48 + n)] else str_nat (n div 10) @ [char_of (48 + n mod 10)])"

declare str_nat.simps [simp del]

definition str_int :: "int \<Rightarrow> string" where
  "str_int i = (if i < 0 then CHR ''-'' # str_nat (nat (- i)) else str_nat (nat i))"

text \<open>An absent value in an f-string is rendered as \<^verbatim>\<open>None\<close>.\<close>

definition str_optional :: "string option \<Rightarrow> string" where
  "str_optional v = (case v of None \<Rightarrow> ''None'' | Some s \<Rightarrow> s)"

definition startswith :: "string \<Rightarrow> string \<Rightarrow> bool" where
  "startswith s p = (take (length p) s = p)"

section \<open>The handlers\<close>

subsection \<open>The permission checks\<close>

definition is_admin :: "'p telegram \<Rightarrow> update \<Rightarrow> ('p, bool) action" where
  "is_admin api upd =
     (let uid = user_id (effective_user upd);
          cid = chat_id (effective_chat upd)
      in try_except
           (and_then (bot_get_chat_member api cid uid)
              (\<lambda>member. returns (status member \<in> set [''administrator'', ''creator''])))
           (\<lambda>e. returns False))"

definition is_bot_admin :: "'p telegram \<Rightarrow> update \<Rightarrow> ('p, bool) action" where
  "is_bot_admin api upd =
     (let cid = chat_id (effective_chat upd);
          bid = bot_id api
      in try_except
           (and_then (bot_get_chat_member api cid bid)
              (\<lambda>member. returns (status member = ''administrator'')))
           (\<lambda>e. returns False))"

subsection \<open>Commands open to everyone\<close>

definition start_command :: "'p telegram \<Rightarrow> update \<Rightarrow> ('p, unit) action" where
  "start_command api upd = reply_text api upd start_text None"

definition help_command :: "'p telegram \<Rightarrow> update \<Rightarrow> ('p, unit) action" where
  "help_command api upd = reply_text api upd help_text (Some ''Markdown'')"

definition stats_text :: "string option \<Rightarrow> int \<Rightarrow> int \<Rightarrow> int \<Rightarrow> int \<Rightarrow> string \<Rightarrow> string" where
  "stats_text chat_title member_count admin_count active_users today_messages stamp =
     newline @ bar_chart @ '' **Group Statistics for '' @ str_optional chat_title @ ''**'' @
     newline @ newline @ busts @ '' **Members:** '' @ str_int member_count @
     newline @ crown @ '' **Admins:** '' @ str_int admin_count @
     newline @ mobile_phone @ '' **Active Users Today:** '' @ str_int active_users @
     newline @ speech_balloon @ '' **Messages Today:** '' @ str_int today_messages @
     newline @ newline @ calendar @ '' **Date:** '' @ stamp @
     newline @ ''            ''"

text \<open>
  The two queries of \<^verbatim>\<open>stats_command\<close> run inside its \<^verbatim>\<open>try\<close>, which catches
  \<^verbatim>\<open>TelegramError\<close> only: on a missing table the error of the database leaves the handler.
\<close>

definition stats_command :: "'p telegram \<Rightarrow> store \<Rightarrow> clock \<Rightarrow> update \<Rightarrow> ('p, unit) action" where
  "stats_command api db clk upd =
     (let cht = effective_chat upd;
          cid = chat_id cht
      in if chat_type cht = ''private''
         then reply_text api upd ''This command only works in groups!'' None
         else try_except
           (and_then (bot_get_chat_member_count api cid) (\<lambda>member_count.
            and_then (bot_get_chat_administrators api cid) (\<lambda>admins.
              let admin_count = int (length admins);
                  tdy = today clk
              in case group_stats db of
                   None \<Rightarrow> raises OperationalError
                 | Some gs \<Rightarrow>
                     (let today_messages =
                            coalesce (map_option gs_messages_count (select_group_stats gs cid tdy)) 0
                      in case user_activity db of
                           None \<Rightarrow> raises OperationalError
                         | Some ua \<Rightarrow>
                             (let active_users = int (length (filter
                                    (\<lambda>r. ua_group_id r = cid \<and> ua_last_message r = tdy) ua))
                              in reply_text api upd
                                   (stats_text (title cht) member_count admin_count active_users
                                      today_messages (timestamp clk))
                                   (Some ''Markdown''))))))
           (\<lambda>e. reply_text api upd (cross_mark @ '' Error getting statistics: '' @ e) None))"

subsection \<open>Group management\<close>

definition lock_permissions :: chat_permissions where
  "lock_permissions =
     \<lparr>can_send_messages = Some False, can_send_media_messages = Some False,
      can_send_polls = Some False, can_send_other_messages = Some False,
      can_add_web_page_previews = Some False, can_change_info = Some False,
      can_invite_users = Some False, can_pin_messages = Some False\<rparr>"

definition lock_group :: "'p telegram \<Rightarrow> update \<Rightarrow> ('p, unit) action" where
  "lock_group api upd =
     and_then (is_admin api upd) (\<lambda>admin.
       if \<not> admin then reply_text api upd only_admins None
       else and_then (is_bot_admin api upd) (\<lambda>bot_admin.
         if \<not> bot_admin
         then reply_text api upd (cross_mark @ '' I need admin privileges to lock the group!'') None
         else try_except
           (and_then (bot_set_chat_permissions api (chat_id (effective_chat upd)) lock_permissions)
              (\<lambda>_. reply_text api upd
                 (locked @ '' Group has been locked! Only admins can send messages.'') None))
           (\<lambda>e. reply_text api upd (cross_mark @ '' Failed to lock group: '' @ e) None)))"

definition unlock_permissions :: chat_permissions where
  "unlock_permissions =
     \<lparr>can_send_messages = Some True, can_send_media_messages = Some True,
      can_send_polls = Some True, can_send_other_messages = Some True,
      can_add_web_page_previews = Some True, can_change_info = Some False,
      can_invite_users = Some True, can_pin_messages = Some False\<rparr>"

definition unlock_group :: "'p telegram \<Rightarrow> update \<Rightarrow> ('p, unit) action" where
  "unlock_group api upd =
     and_then (is_admin api upd) (\<lambda>admin.
       if \<not> admin then reply_text api upd only_admins None
       else and_then (is_bot_admin api upd) (\<lambda>bot_admin.
         if \<not> bot_admin
         then reply_text api upd (cross_mark @ '' I need admin privileges to unlock the group!'') None
         else try_except
           (and_then (bot_set_chat_permissions api (chat_id (effective_chat upd)) unlock_permissions)
              (\<lambda>_. reply_text api upd
                 (unlocked @ '' Group has been unlocked! Everyone can send messages.'') None))
           (\<lambda>e. reply_text api upd (cross_mark @ '' Failed to unlock group: '' @ e) None)))"

subsection \<open>User management\<close>

definition mute_permissions :: chat_permissions where
  "mute_permissions =
     \<lparr>can_send_messages = Some False, can_send_media_messages = None,
      can_send_polls = None, can_send_other_messages = None,
      can_add_web_page_previews = None, can_change_info = None,
      can_invite_users = None, can_pin_messages = None\<rparr>"

text \<open>
  After the two checks the four handlers read \<^verbatim>\<open>update.message.reply_to_message\<close>, which
  raises \<^verbatim>\<open>AttributeError\<close> when the update has no message.
  \<^verbatim>\<open>until_date\<close> is one hour, 3600 seconds, after the clock's reading.
\<close>

definition mute_user :: "'p telegram \<Rightarrow> clock \<Rightarrow> update \<Rightarrow> ('p, unit) action" where
  "mute_user api clk upd =
     and_then (is_admin api upd) (\<lambda>admin.
       if \<not> admin then reply_text api upd only_admins None
       else and_then (is_bot_admin api upd) (\<lambda>bot_admin.
         if \<not> bot_admin
         then reply_text api upd (cross_mark @ '' I need admin privileges to mute users!'') None
         else
           (case message upd of
              None \<Rightarrow> raises AttributeError
            | Some msg \<Rightarrow>
               (case reply_to_message msg of
                  Some replied \<Rightarrow>
                    (case from_user replied of
                       None \<Rightarrow> returns ()
                     | Some user_to_mute \<Rightarrow>
                         try_except
                           (let until_date = now clk + 3600
                            in and_then
                              (bot_restrict_chat_member api (chat_id (effective_chat upd))
                                 (user_id user_to_mute) mute_permissions (Some until_date))
                              (\<lambda>_. reply_text api upd
                                 (muted_speaker @ '' User '' @ first_name user_to_mute @
                                    '' has been muted for 1 hour.'') None))
                           (\<lambda>e. reply_text api upd (cross_mark @ '' Failed to mute user: '' @ e) None))
                | None \<Rightarrow>
                    if (case args upd of [] \<Rightarrow> False | a # _ \<Rightarrow> startswith a ''@'')
                    then reply_text api upd ''Please reply to a message or provide user ID'' None
                    else reply_text api upd
                      ''Please reply to a message from the user you want to mute or use @username''
                      None))))"

definition unmute_permissions :: chat_permissions where
  "unmute_permissions =
     \<lparr>can_send_messages = Some True, can_send_media_messages = Some True,
      can_send_polls = Some True, can_send_other_messages = Some True,
      can_add_web_page_previews = Some True, can_change_info = None,
      can_invite_users = None, can_pin_messages = None\<rparr>"

definition unmute_user :: "'p telegram \<Rightarrow> update \<Rightarrow> ('p, unit) action" where
  "unmute_user api upd =
     and_then (is_admin api upd) (\<lambda>admin.
       if \<not> admin then reply_text api upd only_admins None
       else and_then (is_bot_admin api upd) (\<lambda>bot_admin.
         if \<not> bot_admin
         then reply_text api upd (cross_mark @ '' I need admin privileges to unmute users!'') None
         else
           (case message upd of
              None \<Rightarrow> raises AttributeError
            | Some msg \<Rightarrow>
               (case reply_to_message msg of
                  Some replied \<Rightarrow>
                    (case from_user replied of
                       None \<Rightarrow> returns ()
                     | Some user_to_unmute \<Rightarrow>
                         try_except
                           (and_then
                              (bot_restrict_chat_member api (chat_id (effective_chat upd))
                                 (user_id user_to_unmute) unmute_permissions None)
                              (\<lambda>_. reply_text api upd
                                 (loud_speaker @ '' User '' @ first_name user_to_unmute @
                                    '' has been unmuted.'') None))
                           (\<lambda>e. reply_text api upd (cross_mark @ '' Failed to unmute user: '' @ e) None))
                | None \<Rightarrow>
                    reply_text api upd
                      ''Please reply to a message from the user you want to unmute'' None))))"

definition ban_user :: "'p telegram \<Rightarrow> update \<Rightarrow> ('p, unit) action" where
  "ban_user api upd =
     and_then (is_admin api upd) (\<lambda>admin.
       if \<not> admin then reply_text api upd only_admins None
       else and_then (is_bot_admin api upd) (\<lambda>bot_admin.
         if \<not> bot_admin
         then reply_text api upd (cross_mark @ '' I need admin privileges to ban users!'') None
         else
           (case message upd of
              None \<Rightarrow> raises AttributeError
            | Some msg \<Rightarrow>
               (case reply_to_message msg of
                  Some replied \<Rightarrow>
                    (case from_user replied of
                       None \<Rightarrow> returns ()
                     | Some user_to_ban \<Rightarrow>
                         try_except
                           (and_then
                              (bot_ban_chat_member api (chat_id (effective_chat upd))
                                 (user_id user_to_ban))
                              (\<lambda>_. reply_text api upd
                                 (no_entry @ '' User '' @ first_name user_to_ban @
                                    '' has been banned from the group.'') None))
                           (\<lambda>e. reply_text api upd (cross_mark @ '' Failed to ban user: '' @ e) None))
                | None \<Rightarrow>
                    reply_text api upd
                      ''Please reply to a message from the user you want to ban'' None))))"

definition kick_user :: "'p telegram \<Rightarrow> update \<Rightarrow> ('p, unit) action" where
  "kick_user api upd =
     and_then (is_admin api upd) (\<lambda>admin.
       if \<not> admin then reply_text api upd only_admins None
       else and_then (is_bot_admin api upd) (\<lambda>bot_admin.
         if \<not> bot_admin
         then reply_text api upd (cross_mark @ '' I need admin privileges to kick users!'') None
         else
           (case message upd of
              None \<Rightarrow> raises AttributeError
            | Some msg \<Rightarrow>
               (case reply_to_message msg of
                  Some replied \<Rightarrow>
                    (case from_user replied of
                       None \<Rightarrow> returns ()
                     | Some user_to_kick \<Rightarrow>
                         try_except
                           (and_then
                              (bot_ban_chat_member api (chat_id (effective_chat upd))
                                 (user_id user_to_kick))
                              (\<lambda>_. and_then
                                 (bot_unban_chat_member api (chat_id (effective_chat upd))
                                    (user_id user_to_kick))
                                 (\<lambda>_. reply_text api upd
                                    (boot @ '' User '' @ first_name user_to_kick @
                                       '' has been kicked from the group.'') None)))
                           (\<lambda>e. reply_text api upd (cross_mark @ '' Failed to kick user: '' @ e) None))
                | None \<Rightarrow>
                    reply_text api upd
                      ''Please reply to a message from the user you want to kick'' None))))"

subsection \<open>Dispatch\<close>

text \<open>
  The table of \<^verbatim>\<open>setup_handlers\<close>, from the name of a command to its handler, in
  the order of registration. The handlers that read the database or the clock get
  them from the table.
\<close>

definition setup_handlers ::
  "'p telegram \<Rightarrow> store \<Rightarrow> clock \<Rightarrow> (string \<times> (update \<Rightarrow> ('p, unit) action)) list" where
  "setup_handlers api db clk =
     [(''start'', start_command api),
      (''stats'', stats_command api db clk),
      (''lock'', lock_group api),
      (''unlock'', unlock_group api),
      (''mute'', mute_user api clk),
      (''unmute'', unmute_user api),
      (''ban'', ban_user api),
      (''kick'', kick_user api),
      (''help'', help_command api)]"

text \<open>The commands that the help text marks as "Admin Only".\<close>

definition privileged_commands :: "string list" where
  "privileged_commands = [''lock'', ''unlock'', ''mute'', ''unmute'', ''ban'', ''kick'']"

section \<open>Vocabulary of the properties\<close>

subsection \<open>Stores\<close>

text \<open>
  Primary-key uniqueness: no two rows of \<^verbatim>\<open>group_stats\<close> agree on
  \<^verbatim>\<open>(group_id, date)\<close> and no two rows of \<^verbatim>\<open>user_activity\<close> on
  \<^verbatim>\<open>(user_id, group_id)\<close>.
\<close>

definition pk_unique :: "store \<Rightarrow> bool" where
  "pk_unique db =
     ((case group_stats db of None \<Rightarrow> True | Some gs \<Rightarrow> distinct (map gs_key gs)) \<and>
      (case user_activity db of None \<Rightarrow> True | Some ua \<Rightarrow> distinct (map ua_key ua)))"

text \<open>The counter of a group on a day and of a user in a group; 0 when there is no row.\<close>

definition messages_today :: "store \<Rightarrow> int \<Rightarrow> string \<Rightarrow> int" where
  "messages_today db g d =
     (case group_stats db of None \<Rightarrow> 0
      | Some gs \<Rightarrow> coalesce (map_option gs_messages_count (select_group_stats gs g d)) 0)"

definition messages_of :: "store \<Rightarrow> int \<Rightarrow> int \<Rightarrow> int" where
  "messages_of db u g =
     (case user_activity db of None \<Rightarrow> 0
      | Some ua \<Rightarrow> coalesce (map_option ua_message_count (select_user_activity ua u g)) 0)"

text \<open>Message updates of user \<open>u\<close> in the group (non-private) chat \<open>g\<close>, all on day \<open>d\<close>.\<close>

definition same_day_messages :: "int \<Rightarrow> int \<Rightarrow> string \<Rightarrow> (clock \<times> update) list \<Rightarrow> bool" where
  "same_day_messages u g d us =
     list_all (\<lambda>(clk, upd). today clk = d \<and> user_id (effective_user upd) = u \<and>
        chat_id (effective_chat upd) = g \<and> chat_type (effective_chat upd) \<noteq> ''private'') us"

text \<open>
  Every row of the old store has a row with the same key in the new store, and the
  counter of that row is not smaller.
\<close>

definition counters_grow :: "store \<Rightarrow> store \<Rightarrow> bool" where
  "counters_grow db db' =
     ((case group_stats db of None \<Rightarrow> True
       | Some gs \<Rightarrow> (case group_stats db' of None \<Rightarrow> False
           | Some gs' \<Rightarrow> list_all (\<lambda>r. list_ex (\<lambda>r'. gs_key r' = gs_key r \<and>
                 gs_messages_count r \<le> gs_messages_count r') gs') gs)) \<and>
      (case user_activity db of None \<Rightarrow> True
       | Some ua \<Rightarrow> (case user_activity db' of None \<Rightarrow> False
           | Some ua' \<Rightarrow> list_all (\<lambda>r. list_ex (\<lambda>r'. ua_key r' = ua_key r \<and>
                 ua_message_count r \<le> ua_message_count r') ua') ua)))"

text \<open>No row holds a member count: the column is \<^verbatim>\<open>NULL\<close> or the default 0 of \<^verbatim>\<open>COALESCE\<close>.\<close>

definition no_member_count :: "store \<Rightarrow> bool" where
  "no_member_count db =
     (case group_stats db of None \<Rightarrow> True
      | Some gs \<Rightarrow> list_all (\<lambda>r. gs_member_count r = None \<or> gs_member_count r = Some 0) gs)"

subsection \<open>Traces\<close>


text \<open>The remote calls that change the chat: its permissions, a member's rights, the ban list.\<close>

definition is_mutating :: "request \<Rightarrow> bool" where
  "is_mutating rq =
     (case rq of
        SetChatPermissions c perms \<Rightarrow> True
      | RestrictChatMember c u perms until \<Rightarrow> True
      | BanChatMember c u \<Rightarrow> True
      | UnbanChatMember c u \<Rightarrow> True
      | _ \<Rightarrow> False)"







text \<open>
  A trace is tied to the platform by running it again: \<open>perform\<close> makes the remote
  call of a request on the platform, and \<open>replay\<close> makes the calls of a trace one
  after the other from a platform state, checks that the platform answers each call
  as the trace says, and gives the platform state after the last call.
\<close>

definition sent :: "string + 'a \<Rightarrow> ('a \<Rightarrow> answer) \<Rightarrow> answer" where
  "sent a tag = (case a of Inl msg \<Rightarrow> Error msg | Inr x \<Rightarrow> tag x)"

definition perform :: "'p telegram \<Rightarrow> request \<Rightarrow> 'p \<Rightarrow> answer \<times> 'p" where
  "perform api rq p =
     (case rq of
        GetChatMember c u \<Rightarrow>
          (case get_chat_member api c u p of (a, p') \<Rightarrow> (sent a Member, p'))
      | GetChatMemberCount c \<Rightarrow>
          (case get_chat_member_count api c p of (a, p') \<Rightarrow> (sent a Count, p'))
      | GetChatAdministrators c \<Rightarrow>
          (case get_chat_administrators api c p of (a, p') \<Rightarrow> (sent a Members, p'))
      | SetChatPermissions c perms \<Rightarrow>
          (case set_chat_permissions api c perms p of (a, p') \<Rightarrow> (sent a (\<lambda>_. Done), p'))
      | RestrictChatMember c u perms until \<Rightarrow>
          (case restrict_chat_member api c u perms until p of (a, p') \<Rightarrow> (sent a (\<lambda>_. Done), p'))
      | BanChatMember c u \<Rightarrow>
          (case ban_chat_member api c u p of (a, p') \<Rightarrow> (sent a (\<lambda>_. Done), p'))
      | UnbanChatMember c u \<Rightarrow>
          (case unban_chat_member api c u p of (a, p') \<Rightarrow> (sent a (\<lambda>_. Done), p'))
      | ReplyText c text pm \<Rightarrow>
          (case send_message api c text pm p of (a, p') \<Rightarrow> (sent a (\<lambda>_. Done), p')))"

fun replay :: "'p telegram \<Rightarrow> 'p \<Rightarrow> event list \<Rightarrow> 'p option" where
  "replay api p [] = Some p"
| "replay api p ((rq, a) # evs) =
     (case perform api rq p of (a', p') \<Rightarrow> if a' = a then replay api p' evs else None)"


text \<open>
  What a handler that ends with a reply returns: nothing when the platform has taken
  the reply, the error of the platform otherwise.
\<close>

definition outcome :: "string + unit \<Rightarrow> exn + unit" where
  "outcome a = (case a of Inl msg \<Rightarrow> Inl (TelegramError msg) | Inr x \<Rightarrow> Inr ())"

subsection \<open>The permission gate\<close>

text \<open>
  The six privileged handlers begin with the same two checks and differ in the text
  of the second rejection and in what follows the checks. \<open>gate\<close> is that common
  beginning; every rejection of the second check starts with \<open>need_privileges\<close>.
\<close>

definition gate :: "'p telegram \<Rightarrow> update \<Rightarrow> string \<Rightarrow> ('p, unit) action \<Rightarrow> ('p, unit) action" where
  "gate api upd refusal body =
     and_then (is_admin api upd) (\<lambda>admin.
       if \<not> admin then reply_text api upd only_admins None
       else and_then (is_bot_admin api upd) (\<lambda>bot_admin.
         if \<not> bot_admin then reply_text api upd refusal None else body))"

definition need_privileges :: string where
  "need_privileges = cross_mark @ '' I need admin privileges to ''"

text \<open>What a lookup put in the trace, and whether its answer carries one of the given roles.\<close>

definition lookup_answer :: "string + chat_member \<Rightarrow> answer" where
  "lookup_answer a = (case a of Inl msg \<Rightarrow> Error msg | Inr m \<Rightarrow> Member m)"

definition grants :: "string list \<Rightarrow> string + chat_member \<Rightarrow> bool" where
  "grants roles a = (case a of Inl msg \<Rightarrow> False | Inr m \<Rightarrow> status m \<in> set roles)"

subsection \<open>A small group\<close>

text \<open>
  Concrete inputs: a supergroup with its creator Alice, the member Bob and the bot
  (an administrator, user 99) on a platform that knows no other user, carries out
  every call and keeps the ban list as its state. \<open>plain\<close> is a message without a
  reply, \<open>reply_to\<close> a message that replies to a message of another user, and
  \<open>edited\<close> an edited message, which has no \<^verbatim>\<open>update.message\<close>.
\<close>

definition alice :: user where
  "alice = \<lparr>user_id = 7, username = Some ''alice'', first_name = ''Alice''\<rparr>"

definition bob :: user where
  "bob = \<lparr>user_id = 8, username = None, first_name = ''Bob''\<rparr>"

definition carol :: user where
  "carol = \<lparr>user_id = 9, username = Some ''carol'', first_name = ''Carol''\<rparr>"

definition team :: chat where
  "team = \<lparr>chat_id = - 1001, chat_type = ''supergroup'', title = Some ''Team''\<rparr>"

definition noon :: clock where
  "noon = \<lparr>now = 1700000000, today = ''2023-11-14'', timestamp = ''2023-11-14 12:00:00''\<rparr>"

definition plain :: "user \<Rightarrow> update" where
  "plain usr =
     \<lparr>effective_user = usr, effective_chat = team,
      message = Some \<lparr>reply_to_message = None\<rparr>, args = []\<rparr>"

definition reply_to :: "user \<Rightarrow> user \<Rightarrow> update" where
  "reply_to usr target =
     \<lparr>effective_user = usr, effective_chat = team,
      message = Some \<lparr>reply_to_message = Some \<lparr>from_user = Some target\<rparr>\<rparr>, args = []\<rparr>"

definition edited :: "user \<Rightarrow> update" where
  "edited usr =
     \<lparr>effective_user = usr, effective_chat = team, message = None, args = []\<rparr>"

definition staff :: "int \<Rightarrow> string + string" where
  "staff u =
     (if u = 7 then Inr ''creator''
      else if u = 99 then Inr ''administrator''
      else if u = 8 then Inr ''member''
      else Inl ''User not found'')"


text \<open>The roles when the platform cannot tell the status of the bot.\<close>

definition bot_hidden :: "int \<Rightarrow> string + string" where
  "bot_hidden u = (if u = 99 then Inl ''Bad Request: user not found'' else staff u)"

definition platform :: "(int \<Rightarrow> string + string) \<Rightarrow> (int \<times> int) list telegram" where
  "platform roles =
     \<lparr>bot_id = 99,
      get_chat_member = (\<lambda>c u p.
        (case roles u of Inl msg \<Rightarrow> Inl msg | Inr st \<Rightarrow> Inr \<lparr>member_id = u, status = st\<rparr>, p)),
      get_chat_member_count = (\<lambda>c p. (Inr 3, p)),
      get_chat_administrators = (\<lambda>c p.
        (Inr [\<lparr>member_id = 7, status = ''creator''\<rparr>,
              \<lparr>member_id = 99, status = ''administrator''\<rparr>], p)),
      set_chat_permissions = (\<lambda>c perms p. (Inr (), p)),
      restrict_chat_member = (\<lambda>c u perms until p. (Inr (), p)),
      ban_chat_member = (\<lambda>c u p. (Inr (), (c, u) # p)),
      unban_chat_member = (\<lambda>c u p. (Inr (), removeAll (c, u) p)),
      send_message = (\<lambda>c text pm p. (Inr (), p))\<rparr>"


text \<open>The same platform when the bot may not write to the chat.\<close>

definition silenced :: "(int \<Rightarrow> string + string) \<Rightarrow> (int \<times> int) list telegram" where
  "silenced roles =
     (platform roles)\<lparr>send_message := (\<lambda>c text pm p. (Inl ''Forbidden: bot was kicked'', p))\<rparr>"

text \<open>
  A store after some days of use: five messages in the group on 13 November, three
  of Alice and two of Bob, and one message of Alice on 14 November.
\<close>

definition busy :: store where
  "busy =
     \<lparr>group_stats = Some
        [\<lparr>gs_group_id = - 1001, gs_date = ''2023-11-13'', gs_member_count = Some 0,
          gs_messages_count = 5\<rparr>,
         \<lparr>gs_group_id = - 1001, gs_date = ''2023-11-14'', gs_member_count = None,
          gs_messages_count = 1\<rparr>],
      user_activity = Some
        [\<lparr>ua_user_id = 8, ua_group_id = - 1001, ua_username = None, ua_first_name = ''Bob'',
          ua_last_message = ''2023-11-13'', ua_message_count = 2\<rparr>,
         \<lparr>ua_user_id = 7, ua_group_id = - 1001, ua_username = Some ''alice'',
          ua_first_name = ''Alice'', ua_last_message = ''2023-11-14'', ua_message_count = 4\<rparr>]\<rparr>"

section \<open>Evaluation\<close>

text \<open>The definitions to unfold when a handler or a statement runs on concrete inputs.\<close>

lemmas small_group = alice_def bob_def carol_def team_def noon_def plain_def reply_to_def
  edited_def staff_def platform_def

lemmas store_defs = init_database_def new_file_def create_table_if_not_exists_def
  track_activity_def upsert_user_activity_def upsert_group_stats_def
  insert_or_replace_user_activity_def insert_or_replace_group_stats_def
  select_user_activity_def select_group_stats_def coalesce_def ua_key_def gs_key_def Let_def

lemmas call_defs = bot_get_chat_member_count_def bot_get_chat_administrators_def
  bot_set_chat_permissions_def bot_restrict_chat_member_def bot_ban_chat_member_def
  bot_unban_chat_member_def


lemmas run_defs = and_then_def try_except_def remote_call_def returns_def raises_def
  reply_text_def bot_get_chat_member_def call_defs Let_def

lemmas handler_defs = setup_handlers_def privileged_commands_def
  is_admin_def is_bot_admin_def start_command_def help_command_def stats_command_def
  lock_group_def unlock_group_def mute_user_def unmute_user_def ban_user_def kick_user_def
  run_defs

section \<open>Properties of the store\<close>

subsection \<open>Rows and keys\<close>

lemma create_table_if_not_exists_Some:
  "create_table_if_not_exists (Some rows) = Some rows"
  by (simp add: create_table_if_not_exists_def)

lemma create_table_if_not_exists_twice:
  "create_table_if_not_exists (create_table_if_not_exists t) = create_table_if_not_exists t"
  by (cases t) (simp_all add: create_table_if_not_exists_def)

lemma find_append:
  "find P (xs @ ys) = (case find P xs of None \<Rightarrow> find P ys | Some x \<Rightarrow> Some x)"
  by (induction xs) auto

lemma find_replaced:
  assumes "P new" and "\<And>r. P r \<Longrightarrow> \<not> Q r"
  shows "find P (filter Q rows @ [new]) = Some new"
proof -
  have "find P (filter Q rows) = None"
    using assms(2) by (auto simp: find_None_iff)
  then show ?thesis
    using assms(1) by (simp add: find_append)
qed

lemma find_distinct_key:
  "distinct (map f rows) \<Longrightarrow> r \<in> set rows \<Longrightarrow> find (\<lambda>x. f x = f r) rows = Some r"
  by (induction rows) (auto simp: image_iff)

lemma distinct_insert_or_replace:
  assumes "distinct (map f rows)"
  shows "distinct (map f (filter (\<lambda>r. f r \<noteq> f new) rows @ [new]))"
  using assms by (auto simp: distinct_map_filter)

lemma grow_insert_or_replace:
  fixes cnt :: "'r \<Rightarrow> int"
  assumes "distinct (map f rows)" and "r \<in> set rows"
    and "cnt new = (case find (\<lambda>x. f x = f new) rows of None \<Rightarrow> 0 | Some x \<Rightarrow> cnt x) + 1"
  shows "\<exists>r' \<in> set (filter (\<lambda>x. f x \<noteq> f new) rows @ [new]). f r' = f r \<and> cnt r \<le> cnt r'"
proof (cases "f r = f new")
  case True
  with find_distinct_key [OF assms(1,2)] have "find (\<lambda>x. f x = f new) rows = Some r"
    by simp
  with assms(3) have "cnt r \<le> cnt new" by simp
  with True show ?thesis by auto
next
  case False
  with assms(2) show ?thesis by auto
qed

lemma select_group_stats_key:
  "select_group_stats rows g d = find (\<lambda>x. gs_key x = (g, d)) rows"
  by (simp add: select_group_stats_def gs_key_def)

lemma select_user_activity_key:
  "select_user_activity rows u g = find (\<lambda>x. ua_key x = (u, g)) rows"
  by (simp add: select_user_activity_def ua_key_def)

subsection \<open>The two statements of track\_activity\<close>

lemma select_upsert_user_activity:
  "select_user_activity (upsert_user_activity usr cht tdy ua) (user_id usr) (chat_id cht) =
     Some \<lparr>ua_user_id = user_id usr, ua_group_id = chat_id cht,
        ua_username = username usr, ua_first_name = first_name usr,
        ua_last_message = tdy,
        ua_message_count =
          coalesce (map_option ua_message_count
            (select_user_activity ua (user_id usr) (chat_id cht))) 0 + 1\<rparr>"
  unfolding upsert_user_activity_def select_user_activity_def insert_or_replace_user_activity_def
  by (rule find_replaced) (simp_all add: ua_key_def)

lemma select_upsert_group_stats:
  "select_group_stats (upsert_group_stats cht tdy gs) (chat_id cht) tdy =
     Some \<lparr>gs_group_id = chat_id cht, gs_date = tdy,
        gs_member_count =
          map_option (\<lambda>r. coalesce (gs_member_count r) 0)
            (select_group_stats gs (chat_id cht) tdy),
        gs_messages_count =
          coalesce (map_option gs_messages_count
            (select_group_stats gs (chat_id cht) tdy)) 0 + 1\<rparr>"
  unfolding upsert_group_stats_def select_group_stats_def insert_or_replace_group_stats_def
  by (rule find_replaced) (simp_all add: gs_key_def)

lemma distinct_upsert_user_activity:
  "distinct (map ua_key ua) \<Longrightarrow> distinct (map ua_key (upsert_user_activity usr cht tdy ua))"
  unfolding upsert_user_activity_def insert_or_replace_user_activity_def
  by (rule distinct_insert_or_replace)

lemma distinct_upsert_group_stats:
  "distinct (map gs_key gs) \<Longrightarrow> distinct (map gs_key (upsert_group_stats cht tdy gs))"
  unfolding upsert_group_stats_def insert_or_replace_group_stats_def
  by (rule distinct_insert_or_replace)

lemma grow_upsert_user_activity:
  assumes "distinct (map ua_key ua)" and "r \<in> set ua"
  shows "\<exists>r' \<in> set (upsert_user_activity usr cht tdy ua).
      ua_key r' = ua_key r \<and> ua_message_count r \<le> ua_message_count r'"
  unfolding upsert_user_activity_def insert_or_replace_user_activity_def
  by (rule grow_insert_or_replace [OF assms])
    (simp add: select_user_activity_key ua_key_def coalesce_def split: option.splits)

lemma grow_upsert_group_stats:
  assumes "distinct (map gs_key gs)" and "r \<in> set gs"
  shows "\<exists>r' \<in> set (upsert_group_stats cht tdy gs).
      gs_key r' = gs_key r \<and> gs_messages_count r \<le> gs_messages_count r'"
  unfolding upsert_group_stats_def insert_or_replace_group_stats_def
  by (rule grow_insert_or_replace [OF assms])
    (simp add: select_group_stats_key gs_key_def coalesce_def split: option.splits)

lemma member_count_upsert_group_stats:
  assumes "\<forall>r \<in> set gs. gs_member_count r = None \<or> gs_member_count r = Some 0"
    and "r' \<in> set (upsert_group_stats cht tdy gs)"
  shows "gs_member_count r' = None \<or> gs_member_count r' = Some 0"
proof -
  have "select_group_stats gs (chat_id cht) tdy = Some r \<Longrightarrow> r \<in> set gs" for r
    unfolding select_group_stats_def by (auto simp: find_Some_iff)
  with assms(1) have "map_option (\<lambda>r. coalesce (gs_member_count r) 0)
      (select_group_stats gs (chat_id cht) tdy) \<in> {None, Some 0}"
    by (cases "select_group_stats gs (chat_id cht) tdy") (auto simp: coalesce_def)
  with assms show ?thesis
    by (auto simp: upsert_group_stats_def insert_or_replace_group_stats_def)
qed

subsection \<open>Counting messages\<close>

lemma track_activity_group:
  assumes "chat_type (effective_chat upd) \<noteq> ''private''"
    and "group_stats db = Some gs" and "user_activity db = Some ua"
  shows "track_activity clk upd db =
     Inr \<lparr>group_stats = Some (upsert_group_stats (effective_chat upd) (today clk) gs),
          user_activity = Some (upsert_user_activity (effective_user upd) (effective_chat upd) (today clk) ua)\<rparr>"
  using assms by (simp add: track_activity_def Let_def)

lemma track_activity_Inr_tables:
  assumes "track_activity clk upd db = Inr db'" and "chat_type (effective_chat upd) \<noteq> ''private''"
  shows "\<exists>gs ua. group_stats db = Some gs \<and> user_activity db = Some ua"
  using assms
  by (cases "user_activity db"; cases "group_stats db") (simp_all add: track_activity_def Let_def)

lemma track_activity_counts:
  assumes "chat_type (effective_chat upd) \<noteq> ''private''"
    and "group_stats db = Some gs" and "user_activity db = Some ua"
  shows "\<exists>db' gs' ua'. track_activity clk upd db = Inr db' \<and>
      group_stats db' = Some gs' \<and> user_activity db' = Some ua' \<and>
      select_user_activity ua' (user_id (effective_user upd)) (chat_id (effective_chat upd)) \<noteq> None \<and>
      select_group_stats gs' (chat_id (effective_chat upd)) (today clk) \<noteq> None \<and>
      messages_of db' (user_id (effective_user upd)) (chat_id (effective_chat upd)) =
        messages_of db (user_id (effective_user upd)) (chat_id (effective_chat upd)) + 1 \<and>
      messages_today db' (chat_id (effective_chat upd)) (today clk) =
        messages_today db (chat_id (effective_chat upd)) (today clk) + 1"
  unfolding track_activity_group [OF assms]
  using assms(2,3)
  by (simp add: messages_of_def messages_today_def
      select_upsert_group_stats select_upsert_user_activity coalesce_def)

lemma track_all_counts:
  assumes "same_day_messages u g d us"
    and "group_stats db = Some gs" and "user_activity db = Some ua"
  shows "\<exists>gs' ua'. group_stats (track_all us db) = Some gs' \<and>
      user_activity (track_all us db) = Some ua' \<and>
      (us \<noteq> [] \<or> select_user_activity ua u g \<noteq> None \<longrightarrow> select_user_activity ua' u g \<noteq> None) \<and>
      (us \<noteq> [] \<or> select_group_stats gs g d \<noteq> None \<longrightarrow> select_group_stats gs' g d \<noteq> None) \<and>
      messages_of (track_all us db) u g = messages_of db u g + int (length us) \<and>
      messages_today (track_all us db) g d = messages_today db g d + int (length us)"
  using assms
proof (induction us arbitrary: db gs ua)
  case Nil
  then show ?case by simp
next
  case (Cons cu us)
  obtain clk upd where cu: "cu = (clk, upd)" by (cases cu)
  from Cons.prems(1) cu have hd: "today clk = d" "user_id (effective_user upd) = u"
    "chat_id (effective_chat upd) = g" "chat_type (effective_chat upd) \<noteq> ''private''"
    and tl: "same_day_messages u g d us"
    by (simp_all add: same_day_messages_def)
  from track_activity_counts [OF hd(4) Cons.prems(2) Cons.prems(3), of clk]
  obtain db1 gs1 ua1 where step: "track_activity clk upd db = Inr db1"
    "group_stats db1 = Some gs1" "user_activity db1 = Some ua1"
    "select_user_activity ua1 u g \<noteq> None" "select_group_stats gs1 g d \<noteq> None"
    "messages_of db1 u g = messages_of db u g + 1"
    "messages_today db1 g d = messages_today db g d + 1"
    unfolding hd by blast
  from Cons.IH [OF tl step(2) step(3)]
  obtain gs' ua' where rest: "group_stats (track_all us db1) = Some gs'"
    "user_activity (track_all us db1) = Some ua'"
    "select_user_activity ua' u g \<noteq> None" "select_group_stats gs' g d \<noteq> None"
    "messages_of (track_all us db1) u g = messages_of db1 u g + int (length us)"
    "messages_today (track_all us db1) g d = messages_today db1 g d + int (length us)"
    using step(4,5) by blast
  have run: "track_all (cu # us) db = track_all us db1"
    by (simp add: cu step(1))
  show ?case
    unfolding run using rest step(6,7) by simp
qed

text \<open>
  Claim C1. In a group chat, starting from a store that has no \<^verbatim>\<open>user_activity\<close> row
  for the user and the group, after the \<^verbatim>\<open>track_activity\<close> updates of N messages of
  that user in that group on one day (N at least 1), the row of the user and the
  group has \<^verbatim>\<open>message_count\<close> N, and \<^verbatim>\<open>messages_count\<close> of the row of the group and
  the day is N more than before (N when there was no such row).
\<close>

theorem track_activity_counts_messages:
  assumes "same_day_messages u g d us" and "us \<noteq> []"
    and "group_stats db = Some gs" and "user_activity db = Some ua"
    and "select_user_activity ua u g = None"
  shows "\<exists>gs' ua' r r'. group_stats (track_all us db) = Some gs' \<and>
      user_activity (track_all us db) = Some ua' \<and>
      select_user_activity ua' u g = Some r \<and> ua_message_count r = int (length us) \<and>
      select_group_stats gs' g d = Some r' \<and>
      gs_messages_count r' = messages_today db g d + int (length us)"
proof -
  from track_all_counts [OF assms(1,3,4)] assms(2)
  obtain gs' ua' where rest: "group_stats (track_all us db) = Some gs'"
    "user_activity (track_all us db) = Some ua'"
    "select_user_activity ua' u g \<noteq> None" "select_group_stats gs' g d \<noteq> None"
    "messages_of (track_all us db) u g = messages_of db u g + int (length us)"
    "messages_today (track_all us db) g d = messages_today db g d + int (length us)"
    by blast
  from rest(3,4) obtain r r' where rows: "select_user_activity ua' u g = Some r"
    "select_group_stats gs' g d = Some r'" by auto
  have "messages_of db u g = 0"
    using assms(4,5) by (simp add: messages_of_def coalesce_def)
  with rest(5) rest(2) rows(1) have "ua_message_count r = int (length us)"
    by (simp add: messages_of_def coalesce_def)
  moreover from rest(6) rest(1) rows(2)
  have "gs_messages_count r' = messages_today db g d + int (length us)"
    by (simp add: messages_today_def coalesce_def)
  ultimately show ?thesis
    using rest(1,2) rows by blast
qed


theorem track_activity_counts_messages_witness:
  "same_day_messages 7 (- 1001) ''2023-11-14''
     [(noon, plain alice), (noon, plain alice), (noon, plain alice)] \<and>
   group_stats (init_database new_file) = Some [] \<and>
   user_activity (init_database new_file) = Some [] \<and>
   select_user_activity [] 7 (- 1001) = None \<and>
   (\<exists>gs' ua' r r'.
      group_stats (track_all [(noon, plain alice), (noon, plain alice), (noon, plain alice)]
        (init_database new_file)) = Some gs' \<and>
      user_activity (track_all [(noon, plain alice), (noon, plain alice), (noon, plain alice)]
        (init_database new_file)) = Some ua' \<and>
      select_user_activity ua' 7 (- 1001) = Some r \<and> ua_message_count r = 3 \<and>
      select_group_stats gs' (- 1001) ''2023-11-14'' = Some r' \<and> gs_messages_count r' = 3)"
proof -
  have msgs: "same_day_messages 7 (- 1001) ''2023-11-14''
     [(noon, plain alice), (noon, plain alice), (noon, plain alice)]"
    by (simp add: same_day_messages_def small_group)
  have ne: "[(noon, plain alice), (noon, plain alice), (noon, plain alice)] \<noteq> []"
    by simp
  have gs: "group_stats (init_database new_file) = Some []"
    and ua: "user_activity (init_database new_file) = Some []"
    by (simp_all add: store_defs)
  have none: "select_user_activity [] 7 (- 1001) = None"
    by (simp add: select_user_activity_def)
  have "messages_today (init_database new_file) (- 1001) ''2023-11-14'' = 0"
    by (simp add: messages_today_def store_defs)
  with track_activity_counts_messages [OF msgs ne gs ua none] msgs gs ua none
  show ?thesis by simp
qed


subsection \<open>Creating the schema again\<close>

lemma init_database_tables:
  "group_stats (init_database db) = create_table_if_not_exists (group_stats db)"
  "user_activity (init_database db) = create_table_if_not_exists (user_activity db)"
  by (simp_all add: init_database_def Let_def)

lemma init_database_existing:
  assumes "group_stats db = Some gs" and "user_activity db = Some ua"
  shows "init_database db = db"
  using assms by (simp add: init_database_def Let_def create_table_if_not_exists_def)

text \<open>
  Claim C5. Running \<^verbatim>\<open>init_database\<close> on a store in which both tables exist changes
  nothing: the tables that exist and every row of them stay as they are. Running it
  twice is the same as running it once, and a table that exists keeps its rows also
  when the other table is missing.
\<close>

theorem init_database_idempotent:
  "init_database (init_database db) = init_database db \<and>
   (\<forall>gs. group_stats db = Some gs \<longrightarrow> group_stats (init_database db) = Some gs) \<and>
   (\<forall>ua. user_activity db = Some ua \<longrightarrow> user_activity (init_database db) = Some ua) \<and>
   (group_stats db \<noteq> None \<and> user_activity db \<noteq> None \<longrightarrow> init_database db = db)"
proof -
  have "init_database (init_database db) = init_database db"
    by (simp add: init_database_def Let_def create_table_if_not_exists_twice)
  moreover have "group_stats db = Some gs \<Longrightarrow> group_stats (init_database db) = Some gs" for gs
    by (simp add: init_database_tables create_table_if_not_exists_Some)
  moreover have "user_activity db = Some ua \<Longrightarrow> user_activity (init_database db) = Some ua" for ua
    by (simp add: init_database_tables create_table_if_not_exists_Some)
  moreover have "group_stats db \<noteq> None \<and> user_activity db \<noteq> None \<longrightarrow> init_database db = db"
    using init_database_existing by auto
  ultimately show ?thesis by blast
qed


theorem init_database_idempotent_witness:
  "group_stats busy \<noteq> None \<and> user_activity busy \<noteq> None \<and>
   init_database busy = busy \<and>
   group_stats (init_database busy) = Some
     [\<lparr>gs_group_id = - 1001, gs_date = ''2023-11-13'', gs_member_count = Some 0,
       gs_messages_count = 5\<rparr>,
      \<lparr>gs_group_id = - 1001, gs_date = ''2023-11-14'', gs_member_count = None,
       gs_messages_count = 1\<rparr>] \<and>
   user_activity (init_database busy) = Some
     [\<lparr>ua_user_id = 8, ua_group_id = - 1001, ua_username = None, ua_first_name = ''Bob'',
       ua_last_message = ''2023-11-13'', ua_message_count = 2\<rparr>,
      \<lparr>ua_user_id = 7, ua_group_id = - 1001, ua_username = Some ''alice'',
       ua_first_name = ''Alice'', ua_last_message = ''2023-11-14'', ua_message_count = 4\<rparr>] \<and>
   init_database (init_database busy) = init_database busy \<and>
   group_stats (init_database (busy\<lparr>user_activity := None\<rparr>)) = group_stats busy \<and>
   user_activity (init_database (busy\<lparr>user_activity := None\<rparr>)) = Some []"
proof -
  have tables: "group_stats busy \<noteq> None" "user_activity busy \<noteq> None"
    by (simp_all add: busy_def)
  from init_database_idempotent [of busy] tables
  have whole: "init_database busy = busy"
    "init_database (init_database busy) = init_database busy"
    by simp_all
  from init_database_idempotent [of "busy\<lparr>user_activity := None\<rparr>"]
  have half: "group_stats (init_database (busy\<lparr>user_activity := None\<rparr>)) = group_stats busy"
    by (simp add: busy_def)
  have "user_activity (init_database (busy\<lparr>user_activity := None\<rparr>)) = Some []"
    by (simp add: store_defs)
  with tables whole half show ?thesis
    by (simp add: busy_def)
qed


subsection \<open>Keys and counters\<close>

lemma init_database_pk_unique: "pk_unique db \<Longrightarrow> pk_unique (init_database db)"
  by (cases "group_stats db"; cases "user_activity db")
    (simp_all add: pk_unique_def init_database_tables create_table_if_not_exists_def)

lemma counters_grow_refl: "counters_grow db db"
  by (cases "group_stats db"; cases "user_activity db")
    (auto simp: counters_grow_def list_all_iff list_ex_iff)

lemma track_activity_pk_unique:
  assumes "pk_unique db" and "track_activity clk upd db = Inr db'"
  shows "pk_unique db'"
proof (cases "chat_type (effective_chat upd) = ''private''")
  case True
  with assms show ?thesis by (simp add: track_activity_def)
next
  case False
  from track_activity_Inr_tables [OF assms(2) False] obtain gs ua
    where t: "group_stats db = Some gs" "user_activity db = Some ua" by blast
  from assms(1) t have d: "distinct (map gs_key gs)" "distinct (map ua_key ua)"
    by (simp_all add: pk_unique_def)
  from assms(2) have "db' = \<lparr>group_stats = Some (upsert_group_stats (effective_chat upd) (today clk) gs),
          user_activity = Some (upsert_user_activity (effective_user upd) (effective_chat upd) (today clk) ua)\<rparr>"
    unfolding track_activity_group [OF False t] by simp
  then show ?thesis
    using d by (simp add: pk_unique_def distinct_upsert_group_stats distinct_upsert_user_activity)
qed

lemma track_activity_counters_grow:
  assumes "pk_unique db" and "track_activity clk upd db = Inr db'"
  shows "counters_grow db db'"
proof (cases "chat_type (effective_chat upd) = ''private''")
  case True
  with assms show ?thesis by (simp add: track_activity_def counters_grow_refl)
next
  case False
  from track_activity_Inr_tables [OF assms(2) False] obtain gs ua
    where t: "group_stats db = Some gs" "user_activity db = Some ua" by blast
  from assms(1) t have d: "distinct (map gs_key gs)" "distinct (map ua_key ua)"
    by (simp_all add: pk_unique_def)
  from assms(2) have "db' = \<lparr>group_stats = Some (upsert_group_stats (effective_chat upd) (today clk) gs),
          user_activity = Some (upsert_user_activity (effective_user upd) (effective_chat upd) (today clk) ua)\<rparr>"
    unfolding track_activity_group [OF False t] by simp
  then show ?thesis
    using t grow_upsert_group_stats [OF d(1)] grow_upsert_user_activity [OF d(2)]
    by (simp add: counters_grow_def list_all_iff list_ex_iff)
qed

text \<open>
  Claim C7. The two operations that write the store, \<^verbatim>\<open>init_database\<close> and
  \<^verbatim>\<open>track_activity\<close>, keep the primary keys of both tables unique, and on a store
  with unique keys \<^verbatim>\<open>track_activity\<close> never lowers a counter: every row that was
  there is there afterwards under the same key with a counter at least as large.
\<close>

theorem store_keys_unique_counters_monotonic:
  assumes "pk_unique db"
  shows "pk_unique (init_database db) \<and>
     (\<forall>clk upd db'. track_activity clk upd db = Inr db' \<longrightarrow> pk_unique db' \<and> counters_grow db db')"
  using assms init_database_pk_unique track_activity_pk_unique track_activity_counters_grow
  by blast


theorem store_keys_unique_counters_monotonic_witness:
  "pk_unique busy \<and> pk_unique (init_database busy) \<and>
   track_activity noon (plain alice) busy =
     Inr \<lparr>group_stats = Some
            [\<lparr>gs_group_id = - 1001, gs_date = ''2023-11-13'', gs_member_count = Some 0,
              gs_messages_count = 5\<rparr>,
             \<lparr>gs_group_id = - 1001, gs_date = ''2023-11-14'', gs_member_count = Some 0,
              gs_messages_count = 2\<rparr>],
          user_activity = Some
            [\<lparr>ua_user_id = 8, ua_group_id = - 1001, ua_username = None, ua_first_name = ''Bob'',
              ua_last_message = ''2023-11-13'', ua_message_count = 2\<rparr>,
             \<lparr>ua_user_id = 7, ua_group_id = - 1001, ua_username = Some ''alice'',
              ua_first_name = ''Alice'', ua_last_message = ''2023-11-14'',
              ua_message_count = 5\<rparr>]\<rparr> \<and>
   pk_unique \<lparr>group_stats = Some
            [\<lparr>gs_group_id = - 1001, gs_date = ''2023-11-13'', gs_member_count = Some 0,
              gs_messages_count = 5\<rparr>,
             \<lparr>gs_group_id = - 1001, gs_date = ''2023-11-14'', gs_member_count = Some 0,
              gs_messages_count = 2\<rparr>],
          user_activity = Some
            [\<lparr>ua_user_id = 8, ua_group_id = - 1001, ua_username = None, ua_first_name = ''Bob'',
              ua_last_message = ''2023-11-13'', ua_message_count = 2\<rparr>,
             \<lparr>ua_user_id = 7, ua_group_id = - 1001, ua_username = Some ''alice'',
              ua_first_name = ''Alice'', ua_last_message = ''2023-11-14'',
              ua_message_count = 5\<rparr>]\<rparr> \<and>
   counters_grow busy
     \<lparr>group_stats = Some
            [\<lparr>gs_group_id = - 1001, gs_date = ''2023-11-13'', gs_member_count = Some 0,
              gs_messages_count = 5\<rparr>,
             \<lparr>gs_group_id = - 1001, gs_date = ''2023-11-14'', gs_member_count = Some 0,
              gs_messages_count = 2\<rparr>],
          user_activity = Some
            [\<lparr>ua_user_id = 8, ua_group_id = - 1001, ua_username = None, ua_first_name = ''Bob'',
              ua_last_message = ''2023-11-13'', ua_message_count = 2\<rparr>,
             \<lparr>ua_user_id = 7, ua_group_id = - 1001, ua_username = Some ''alice'',
              ua_first_name = ''Alice'', ua_last_message = ''2023-11-14'',
              ua_message_count = 5\<rparr>]\<rparr>"
proof -
  have pk: "pk_unique busy"
    by (simp add: pk_unique_def busy_def gs_key_def ua_key_def)
  have run: "track_activity noon (plain alice) busy =
     Inr \<lparr>group_stats = Some
            [\<lparr>gs_group_id = - 1001, gs_date = ''2023-11-13'', gs_member_count = Some 0,
              gs_messages_count = 5\<rparr>,
             \<lparr>gs_group_id = - 1001, gs_date = ''2023-11-14'', gs_member_count = Some 0,
              gs_messages_count = 2\<rparr>],
          user_activity = Some
            [\<lparr>ua_user_id = 8, ua_group_id = - 1001, ua_username = None, ua_first_name = ''Bob'',
              ua_last_message = ''2023-11-13'', ua_message_count = 2\<rparr>,
             \<lparr>ua_user_id = 7, ua_group_id = - 1001, ua_username = Some ''alice'',
              ua_first_name = ''Alice'', ua_last_message = ''2023-11-14'',
              ua_message_count = 5\<rparr>]\<rparr>"
    by (simp add: store_defs small_group busy_def)
  from store_keys_unique_counters_monotonic [OF pk] run pk show ?thesis
    by blast
qed


subsection \<open>The member count\<close>

lemma track_activity_no_member_count:
  assumes "no_member_count db" and "track_activity clk upd db = Inr db'"
  shows "no_member_count db'"
proof (cases "chat_type (effective_chat upd) = ''private''")
  case True
  with assms show ?thesis by (simp add: track_activity_def)
next
  case False
  from track_activity_Inr_tables [OF assms(2) False] obtain gs ua
    where t: "group_stats db = Some gs" "user_activity db = Some ua" by blast
  from assms(1) t have old: "\<forall>r \<in> set gs. gs_member_count r = None \<or> gs_member_count r = Some 0"
    by (simp add: no_member_count_def list_all_iff)
  from assms(2) have "group_stats db' = Some (upsert_group_stats (effective_chat upd) (today clk) gs)"
    unfolding track_activity_group [OF False t] by auto
  then show ?thesis
    using member_count_upsert_group_stats [OF old]
    by (simp add: no_member_count_def list_all_iff)
qed

lemma track_all_no_member_count:
  "no_member_count db \<Longrightarrow> no_member_count (track_all us db)"
proof (induction us arbitrary: db)
  case Nil
  then show ?case by simp
next
  case (Cons cu us)
  obtain clk upd where cu: "cu = (clk, upd)" by (cases cu)
  show ?case
  proof (cases "track_activity clk upd db")
    case (Inl e)
    with Cons cu show ?thesis by simp
  next
    case (Inr db1)
    with Cons.prems have "no_member_count db1"
      by (rule track_activity_no_member_count)
    with Cons.IH Inr cu show ?thesis by simp
  qed
qed

lemma no_member_count_new: "no_member_count (init_database new_file)"
  by (simp add: no_member_count_def init_database_tables new_file_def create_table_if_not_exists_def)

text \<open>
  Claim C9. \<^verbatim>\<open>track_activity\<close> never stores a member count taken from the platform.
  When there is no row for the group and the day, the row it inserts has
  \<^verbatim>\<open>member_count\<close> \<^verbatim>\<open>NULL\<close>. In general it keeps the invariant that every
  \<^verbatim>\<open>member_count\<close> is \<^verbatim>\<open>NULL\<close> or the default 0 of \<^verbatim>\<open>COALESCE\<close>, so this holds in
  every store that the program builds from a new file.
\<close>

theorem member_count_never_recorded:
  "(chat_type (effective_chat upd) \<noteq> ''private'' \<and> group_stats db = Some gs \<and>
      user_activity db = Some ua \<and>
      select_group_stats gs (chat_id (effective_chat upd)) (today clk) = None \<longrightarrow>
      (\<exists>db' gs' r. track_activity clk upd db = Inr db' \<and> group_stats db' = Some gs' \<and>
         select_group_stats gs' (chat_id (effective_chat upd)) (today clk) = Some r \<and>
         gs_member_count r = None)) \<and>
   (\<forall>db'. no_member_count db \<and> track_activity clk upd db = Inr db' \<longrightarrow> no_member_count db') \<and>
   no_member_count (track_all us (init_database new_file))"
proof -
  have "\<exists>db' gs' r. track_activity clk upd db = Inr db' \<and> group_stats db' = Some gs' \<and>
         select_group_stats gs' (chat_id (effective_chat upd)) (today clk) = Some r \<and>
         gs_member_count r = None"
    if "chat_type (effective_chat upd) \<noteq> ''private''" "group_stats db = Some gs"
      "user_activity db = Some ua"
      "select_group_stats gs (chat_id (effective_chat upd)) (today clk) = None"
    unfolding track_activity_group [OF that(1,2,3)]
    by (simp add: select_upsert_group_stats that(4))
  moreover have "no_member_count (track_all us (init_database new_file))"
    by (rule track_all_no_member_count [OF no_member_count_new])
  ultimately show ?thesis
    using track_activity_no_member_count by blast
qed


theorem member_count_never_recorded_witness:
  "chat_type (effective_chat (plain alice)) \<noteq> ''private'' \<and>
   select_group_stats [] (chat_id (effective_chat (plain alice))) (today noon) = None \<and>
   (\<exists>db' gs' r. track_activity noon (plain alice) (init_database new_file) = Inr db' \<and>
      group_stats db' = Some gs' \<and>
      select_group_stats gs' (chat_id (effective_chat (plain alice))) (today noon) = Some r \<and>
      gs_member_count r = None) \<and>
   no_member_count (track_all [(noon, plain alice), (noon, plain bob)] (init_database new_file))"
proof -
  have group: "chat_type (effective_chat (plain alice)) \<noteq> ''private''"
    by (simp add: small_group)
  have gs: "group_stats (init_database new_file) = Some []"
    and ua: "user_activity (init_database new_file) = Some []"
    by (simp_all add: store_defs)
  have none: "select_group_stats [] (chat_id (effective_chat (plain alice))) (today noon) = None"
    by (simp add: select_group_stats_def)
  from member_count_never_recorded [of "plain alice" "init_database new_file" "[]" "[]" noon
      "[(noon, plain alice), (noon, plain bob)]"] group gs ua none
  show ?thesis by blast
qed


section \<open>Properties of the handlers\<close>

subsection \<open>Running actions\<close>

lemma and_thenE:
  assumes "and_then m k p = (r, evs, p')"
  obtains (raised) e where "m p = (Inl e, evs, p')" "r = Inl e"
  | (returned) x evs1 p1 evs2 where "m p = (Inr x, evs1, p1)" "k x p1 = (r, evs2, p')"
      "evs = evs1 @ evs2"
  using assms
  by (auto simp: and_then_def split: prod.splits sum.splits)


lemma remote_callE:
  assumes "remote_call rq tag f p = (r, evs, p')"
  obtains (error) msg where "f p = (Inl msg, p')" "r = Inl (TelegramError msg)"
      "evs = [(rq, Error msg)]"
  | (answer) x where "f p = (Inr x, p')" "r = Inr x" "evs = [(rq, tag x)]"
  using assms
  by (auto simp: remote_call_def split: prod.splits sum.splits)

lemma reply_textE:
  assumes "reply_text api upd text pm p = (r, evs, p')"
  obtains (no_message) "message upd = None" "r = Inl AttributeError" "evs = []" "p' = p"
  | (error) msg where "message upd \<noteq> None"
      "send_message api (chat_id (effective_chat upd)) text pm p = (Inl msg, p')"
      "r = Inl (TelegramError msg)"
      "evs = [(ReplyText (chat_id (effective_chat upd)) text pm, Error msg)]"
  | (sent) "message upd \<noteq> None"
      "send_message api (chat_id (effective_chat upd)) text pm p = (Inr (), p')"
      "r = Inr ()" "evs = [(ReplyText (chat_id (effective_chat upd)) text pm, Done)]"
  using assms
  by (auto simp: reply_text_def raises_def elim!: remote_callE split: option.splits)

lemma reply_text_cases:
  assumes "reply_text api upd text pm p = (r, evs, p')"
  shows "(message upd = None \<and> r = Inl AttributeError \<and> evs = [] \<and> p' = p) \<or>
     (message upd \<noteq> None \<and>
      (\<exists>a. send_message api (chat_id (effective_chat upd)) text pm p = (a, p') \<and>
           evs = [(ReplyText (chat_id (effective_chat upd)) text pm, sent a (\<lambda>_. Done))] \<and>
           r = outcome a))"
  using assms
  by (auto elim!: reply_textE simp: sent_def outcome_def)

lemma is_admin_run:
  "is_admin api upd p =
     (case get_chat_member api (chat_id (effective_chat upd)) (user_id (effective_user upd)) p of
        (Inl msg, p') \<Rightarrow>
          (Inr False, [(GetChatMember (chat_id (effective_chat upd)) (user_id (effective_user upd)), Error msg)], p')
      | (Inr m, p') \<Rightarrow>
          (Inr (status m = ''administrator'' \<or> status m = ''creator''),
           [(GetChatMember (chat_id (effective_chat upd)) (user_id (effective_user upd)), Member m)], p'))"
  by (simp add: is_admin_def Let_def try_except_def and_then_def bot_get_chat_member_def
      remote_call_def returns_def split: prod.splits sum.splits)

lemma is_bot_admin_run:
  "is_bot_admin api upd p =
     (case get_chat_member api (chat_id (effective_chat upd)) (bot_id api) p of
        (Inl msg, p') \<Rightarrow>
          (Inr False, [(GetChatMember (chat_id (effective_chat upd)) (bot_id api), Error msg)], p')
      | (Inr m, p') \<Rightarrow>
          (Inr (status m = ''administrator''),
           [(GetChatMember (chat_id (effective_chat upd)) (bot_id api), Member m)], p'))"
  by (simp add: is_bot_admin_def Let_def try_except_def and_then_def bot_get_chat_member_def
      remote_call_def returns_def split: prod.splits sum.splits)

lemma is_adminE:
  assumes "is_admin api upd p = (r, evs, p')"
  obtains (error) msg where "r = Inr False"
      "get_chat_member api (chat_id (effective_chat upd)) (user_id (effective_user upd)) p = (Inl msg, p')"
      "evs = [(GetChatMember (chat_id (effective_chat upd)) (user_id (effective_user upd)), Error msg)]"
  | (member) m where
      "r = Inr (status m = ''administrator'' \<or> status m = ''creator'')"
      "get_chat_member api (chat_id (effective_chat upd)) (user_id (effective_user upd)) p = (Inr m, p')"
      "evs = [(GetChatMember (chat_id (effective_chat upd)) (user_id (effective_user upd)), Member m)]"
  using assms
  by (simp add: is_admin_run split: prod.splits sum.splits)

lemma is_bot_adminE:
  assumes "is_bot_admin api upd p = (r, evs, p')"
  obtains (error) msg where "r = Inr False"
      "get_chat_member api (chat_id (effective_chat upd)) (bot_id api) p = (Inl msg, p')"
      "evs = [(GetChatMember (chat_id (effective_chat upd)) (bot_id api), Error msg)]"
  | (member) m where
      "r = Inr (status m = ''administrator'')"
      "get_chat_member api (chat_id (effective_chat upd)) (bot_id api) p = (Inr m, p')"
      "evs = [(GetChatMember (chat_id (effective_chat upd)) (bot_id api), Member m)]"
  using assms
  by (simp add: is_bot_admin_run split: prod.splits sum.splits)

lemma is_admin_error:
  assumes "get_chat_member api (chat_id (effective_chat upd)) (user_id (effective_user upd)) p = (Inl msg, p1)"
  shows "is_admin api upd p =
     (Inr False, [(GetChatMember (chat_id (effective_chat upd)) (user_id (effective_user upd)), Error msg)], p1)"
  using assms by (simp add: is_admin_run)

lemma is_bot_admin_error:
  assumes "get_chat_member api (chat_id (effective_chat upd)) (bot_id api) p = (Inl msg, p1)"
  shows "is_bot_admin api upd p =
     (Inr False, [(GetChatMember (chat_id (effective_chat upd)) (bot_id api), Error msg)], p1)"
  using assms by (simp add: is_bot_admin_run)

subsection \<open>Traces and the platform\<close>


lemma replay_reply:
  assumes "send_message api c text pm p = (a, p')"
  shows "replay api p [(ReplyText c text pm, sent a (\<lambda>_. Done))] = Some p'"
  using assms by (simp add: perform_def)

























subsection \<open>The permission gate\<close>

lemma lock_group_gate:
  "\<exists>refusal body. lock_group api upd = gate api upd refusal body \<and> prefix need_privileges refusal"
  unfolding lock_group_def gate_def
  by (intro exI conjI, rule refl) (simp add: need_privileges_def)

lemma unlock_group_gate:
  "\<exists>refusal body. unlock_group api upd = gate api upd refusal body \<and> prefix need_privileges refusal"
  unfolding unlock_group_def gate_def
  by (intro exI conjI, rule refl) (simp add: need_privileges_def)

lemma mute_user_gate:
  "\<exists>refusal body. mute_user api clk upd = gate api upd refusal body \<and> prefix need_privileges refusal"
  unfolding mute_user_def gate_def
  by (intro exI conjI, rule refl) (simp add: need_privileges_def)

lemma unmute_user_gate:
  "\<exists>refusal body. unmute_user api upd = gate api upd refusal body \<and> prefix need_privileges refusal"
  unfolding unmute_user_def gate_def
  by (intro exI conjI, rule refl) (simp add: need_privileges_def)

lemma ban_user_gate:
  "\<exists>refusal body. ban_user api upd = gate api upd refusal body \<and> prefix need_privileges refusal"
  unfolding ban_user_def gate_def
  by (intro exI conjI, rule refl) (simp add: need_privileges_def)

lemma kick_user_gate:
  "\<exists>refusal body. kick_user api upd = gate api upd refusal body \<and> prefix need_privileges refusal"
  unfolding kick_user_def gate_def
  by (intro exI conjI, rule refl) (simp add: need_privileges_def)

lemma privileged_handler:
  assumes "cmd \<in> set privileged_commands" and "map_of (setup_handlers api db clk) cmd = Some h"
  shows "h = lock_group api \<or> h = unlock_group api \<or> h = mute_user api clk \<or>
     h = unmute_user api \<or> h = ban_user api \<or> h = kick_user api"
  using assms by (auto simp: privileged_commands_def setup_handlers_def)

lemma privileged_gate:
  assumes "cmd \<in> set privileged_commands" and "map_of (setup_handlers api db clk) cmd = Some h"
  shows "\<exists>refusal body. h upd = gate api upd refusal body \<and> prefix need_privileges refusal"
  using privileged_handler [OF assms] lock_group_gate [of api upd] unlock_group_gate [of api upd]
    mute_user_gate [of api clk upd] unmute_user_gate [of api upd] ban_user_gate [of api upd]
    kick_user_gate [of api upd]
  by blast

lemma gate_shape:
  fixes upd :: update and api :: "'p telegram"
  defines "c \<equiv> chat_id (effective_chat upd)"
  defines "u \<equiv> user_id (effective_user upd)"
  assumes "gate api upd refusal body p = (r, evs, p')"
  shows "(\<exists>a1 p1 rest. get_chat_member api c u p = (a1, p1) \<and>
            \<not> grants [''administrator'', ''creator''] a1 \<and>
            reply_text api upd only_admins None p1 = (r, rest, p') \<and>
            evs = (GetChatMember c u, lookup_answer a1) # rest) \<or>
         (\<exists>a1 p1 a2 p2 rest. get_chat_member api c u p = (a1, p1) \<and>
            grants [''administrator'', ''creator''] a1 \<and>
            get_chat_member api c (bot_id api) p1 = (a2, p2) \<and>
            \<not> grants [''administrator''] a2 \<and>
            reply_text api upd refusal None p2 = (r, rest, p') \<and>
            evs = (GetChatMember c u, lookup_answer a1) #
                  (GetChatMember c (bot_id api), lookup_answer a2) # rest) \<or>
         (\<exists>a1 p1 a2 p2 evs'. get_chat_member api c u p = (a1, p1) \<and>
            grants [''administrator'', ''creator''] a1 \<and>
            get_chat_member api c (bot_id api) p1 = (a2, p2) \<and>
            grants [''administrator''] a2 \<and>
            body p2 = (r, evs', p') \<and>
            evs = (GetChatMember c u, lookup_answer a1) #
                  (GetChatMember c (bot_id api), lookup_answer a2) # evs')"
  using assms(3) unfolding gate_def c_def u_def
  by (auto elim!: and_thenE is_adminE is_bot_adminE split: if_splits
      simp: grants_def lookup_answer_def)

lemma rejected_not_mutating:
  "\<not> is_mutating (GetChatMember c u)" "\<not> is_mutating (ReplyText c text pm)"
  by (simp_all add: is_mutating_def)

lemma reply_text_not_mutating:
  assumes "reply_text api upd text pm p = (r, rest, p')"
  shows "\<not> list_ex (\<lambda>e. is_mutating (fst e)) rest"
  using assms by (auto elim!: reply_textE simp: rejected_not_mutating)

lemma gate_caller_rejected:
  assumes "gate api upd refusal body p = (r, evs, p')"
    and "get_chat_member api (chat_id (effective_chat upd)) (user_id (effective_user upd)) p = (a1, p1)"
    and "\<not> grants [''administrator'', ''creator''] a1"
  shows "\<exists>rest. reply_text api upd only_admins None p1 = (r, rest, p') \<and>
     evs = (GetChatMember (chat_id (effective_chat upd)) (user_id (effective_user upd)), lookup_answer a1) # rest"
  using gate_shape [OF assms(1)] assms(2,3) by auto

lemma gate_bot_rejected:
  assumes "gate api upd refusal body p = (r, evs, p')"
    and "get_chat_member api (chat_id (effective_chat upd)) (user_id (effective_user upd)) p = (a1, p1)"
    and "grants [''administrator'', ''creator''] a1"
    and "get_chat_member api (chat_id (effective_chat upd)) (bot_id api) p1 = (a2, p2)"
    and "\<not> grants [''administrator''] a2"
  shows "\<exists>rest. reply_text api upd refusal None p2 = (r, rest, p') \<and>
     evs = (GetChatMember (chat_id (effective_chat upd)) (user_id (effective_user upd)), lookup_answer a1) #
           (GetChatMember (chat_id (effective_chat upd)) (bot_id api), lookup_answer a2) # rest"
  using gate_shape [OF assms(1)] assms(2-5) by auto

text \<open>
  Claim C2, as amended. For each of the commands lock, unlock, mute, unmute, ban and
  kick: when the lookup of the invoking user answers with a status other than
  \<^verbatim>\<open>administrator\<close> and \<^verbatim>\<open>creator\<close>, the handler makes no mutating call. When the
  update carries a message, its one remote call after the lookup is
  \<^verbatim>\<open>send_message\<close> of "Only admins can use this command!" to the chat, made in the
  platform state the lookup left; the handler returns when the platform takes the
  reply, raises the error of the platform when it does not, and leaves the platform
  in the state that call left.
\<close>

theorem non_admin_rejected:
  assumes "cmd \<in> set privileged_commands"
    and "map_of (setup_handlers api db clk) cmd = Some h"
    and "get_chat_member api (chat_id (effective_chat upd)) (user_id (effective_user upd)) p = (Inr m, p1)"
    and "status m \<notin> set [''administrator'', ''creator'']"
    and "h upd p = (r, evs, p')"
  shows "\<not> list_ex (\<lambda>e. is_mutating (fst e)) evs \<and>
     (message upd \<noteq> None \<longrightarrow>
        (\<exists>a. send_message api (chat_id (effective_chat upd)) only_admins None p1 = (a, p') \<and>
           evs = [(GetChatMember (chat_id (effective_chat upd)) (user_id (effective_user upd)), Member m),
                  (ReplyText (chat_id (effective_chat upd)) only_admins None, sent a (\<lambda>_. Done))] \<and>
           r = outcome a \<and>
           (a = Inr () \<longrightarrow> r = Inr ())))"
proof -
  from privileged_gate [OF assms(1,2), of upd] obtain refusal body
    where "h upd = gate api upd refusal body" by blast
  with assms(5) have run: "gate api upd refusal body p = (r, evs, p')" by simp
  from assms(4) have "\<not> grants [''administrator'', ''creator''] (Inr m)"
    by (simp add: grants_def)
  from gate_caller_rejected [OF run assms(3) this] obtain rest where
    reply: "reply_text api upd only_admins None p1 = (r, rest, p')"
    and evs: "evs = (GetChatMember (chat_id (effective_chat upd)) (user_id (effective_user upd)), Member m) # rest"
    by (auto simp: lookup_answer_def)
  from reply_text_not_mutating [OF reply] evs
  have "\<not> list_ex (\<lambda>e. is_mutating (fst e)) evs"
    by (simp add: rejected_not_mutating)
  moreover from reply_text_cases [OF reply] evs
  have "message upd \<noteq> None \<longrightarrow>
        (\<exists>a. send_message api (chat_id (effective_chat upd)) only_admins None p1 = (a, p') \<and>
           evs = [(GetChatMember (chat_id (effective_chat upd)) (user_id (effective_user upd)), Member m),
                  (ReplyText (chat_id (effective_chat upd)) only_admins None, sent a (\<lambda>_. Done))] \<and>
           r = outcome a \<and>
           (a = Inr () \<longrightarrow> r = Inr ()))"
    by (auto simp: outcome_def)
  ultimately show ?thesis by blast
qed


theorem non_admin_rejected_witness:
  "''mute'' \<in> set privileged_commands \<and>
   map_of (setup_handlers (platform staff) busy noon) ''mute'' =
     Some (mute_user (platform staff) noon) \<and>
   get_chat_member (platform staff) (chat_id (effective_chat (plain bob)))
     (user_id (effective_user (plain bob))) [(- 1001, 5)] =
     (Inr \<lparr>member_id = 8, status = ''member''\<rparr>, [(- 1001, 5)]) \<and>
   ''member'' \<notin> set [''administrator'', ''creator''] \<and>
   message (plain bob) \<noteq> None \<and>
   send_message (platform staff) (- 1001) only_admins None [(- 1001, 5)] = (Inr (), [(- 1001, 5)]) \<and>
   mute_user (platform staff) noon (plain bob) [(- 1001, 5)] =
     (Inr (), [(GetChatMember (- 1001) 8, Member \<lparr>member_id = 8, status = ''member''\<rparr>),
               (ReplyText (- 1001) only_admins None, Done)], [(- 1001, 5)]) \<and>
   \<not> list_ex (\<lambda>e. is_mutating (fst e))
     [(GetChatMember (- 1001) 8, Member \<lparr>member_id = 8, status = ''member''\<rparr>),
      (ReplyText (- 1001) only_admins None, Done)]"
proof -
  have cmd: "''mute'' \<in> set privileged_commands"
    by (simp add: privileged_commands_def)
  have h: "map_of (setup_handlers (platform staff) busy noon) ''mute'' =
     Some (mute_user (platform staff) noon)"
    by (simp add: setup_handlers_def)
  have lookup: "get_chat_member (platform staff) (chat_id (effective_chat (plain bob)))
     (user_id (effective_user (plain bob))) [(- 1001, 5)] =
     (Inr \<lparr>member_id = 8, status = ''member''\<rparr>, [(- 1001, 5)])"
    by (simp add: small_group)
  have role: "status \<lparr>member_id = 8, status = ''member''\<rparr> \<notin> set [''administrator'', ''creator'']"
    by simp
  have present: "message (plain bob) \<noteq> None"
    by (simp add: small_group)
  have send: "send_message (platform staff) (- 1001) only_admins None [(- 1001, 5)] =
      (Inr (), [(- 1001, 5)])"
    by (simp add: small_group)
  have run: "mute_user (platform staff) noon (plain bob) [(- 1001, 5)] =
     (Inr (), [(GetChatMember (- 1001) 8, Member \<lparr>member_id = 8, status = ''member''\<rparr>),
               (ReplyText (- 1001) only_admins None, Done)], [(- 1001, 5)])"
    by (simp add: handler_defs small_group)
  from non_admin_rejected [OF cmd h lookup role run] cmd h lookup present send run
  show ?thesis by simp
qed


text \<open>
  The claim as stated, a reply and a return in every case, fails in two ways. A
  command of a member in an edited message has no \<^verbatim>\<open>update.message\<close>: the handler
  raises \<^verbatim>\<open>AttributeError\<close> after the lookup and sends nothing. And when the platform
  refuses the reply, the handler raises the error of the platform: the rejection is
  sent outside any \<^verbatim>\<open>try\<close> block.
\<close>

theorem non_admin_not_answered:
  "staff 8 = Inr ''member'' \<and>
   mute_user (platform staff) noon (edited bob) [] =
     (Inl AttributeError,
      [(GetChatMember (- 1001) 8, Member \<lparr>member_id = 8, status = ''member''\<rparr>)], []) \<and>
   mute_user (silenced staff) noon (plain bob) [] =
     (Inl (TelegramError ''Forbidden: bot was kicked''),
      [(GetChatMember (- 1001) 8, Member \<lparr>member_id = 8, status = ''member''\<rparr>),
       (ReplyText (- 1001) only_admins None, Error ''Forbidden: bot was kicked'')], [])"
  by (simp add: handler_defs small_group silenced_def)


text \<open>
  Claim C3. For each privileged command: when the handler issues a mutating call
  (\<^verbatim>\<open>set_chat_permissions\<close>, \<^verbatim>\<open>restrict_chat_member\<close>, \<^verbatim>\<open>ban_chat_member\<close>,
  \<^verbatim>\<open>unban_chat_member\<close>), its first remote call was the lookup of the caller and
  returned the status \<^verbatim>\<open>administrator\<close> or \<^verbatim>\<open>creator\<close>, its second remote call was
  the lookup of the bot, made in the platform state the first lookup left, and
  returned the status \<^verbatim>\<open>administrator\<close>, and the mutating call comes after both.
\<close>

theorem mutation_needs_both_lookups:
  assumes "cmd \<in> set privileged_commands"
    and "map_of (setup_handlers api db clk) cmd = Some h"
    and "h upd p = (r, evs, p')"
    and "i < length evs" and "is_mutating (fst (evs ! i))"
  shows "\<exists>m1 p1 m2 p2.
      get_chat_member api (chat_id (effective_chat upd)) (user_id (effective_user upd)) p = (Inr m1, p1) \<and>
      status m1 \<in> set [''administrator'', ''creator''] \<and>
      get_chat_member api (chat_id (effective_chat upd)) (bot_id api) p1 = (Inr m2, p2) \<and>
      status m2 = ''administrator'' \<and>
      evs ! 0 = (GetChatMember (chat_id (effective_chat upd)) (user_id (effective_user upd)), Member m1) \<and>
      evs ! 1 = (GetChatMember (chat_id (effective_chat upd)) (bot_id api), Member m2) \<and>
      2 \<le> i"
proof -
  from privileged_gate [OF assms(1,2), of upd] obtain refusal body
    where "h upd = gate api upd refusal body" by blast
  with assms(3) have run: "gate api upd refusal body p = (r, evs, p')" by simp
  from assms(4,5) have mut: "\<exists>e \<in> set evs. is_mutating (fst e)"
    using nth_mem by blast
  have calm: "\<forall>e \<in> set rest. \<not> is_mutating (fst e)"
    if "reply_text api upd t None q = (r, rest, p')" for t q rest
    using reply_text_not_mutating [OF that] by (simp add: list_ex_iff)
  from gate_shape [OF run] mut calm obtain a1 p1 a2 p2 evs' where
    pass: "get_chat_member api (chat_id (effective_chat upd)) (user_id (effective_user upd)) p = (a1, p1)"
      "grants [''administrator'', ''creator''] a1"
      "get_chat_member api (chat_id (effective_chat upd)) (bot_id api) p1 = (a2, p2)"
      "grants [''administrator''] a2"
      "evs = (GetChatMember (chat_id (effective_chat upd)) (user_id (effective_user upd)), lookup_answer a1) #
             (GetChatMember (chat_id (effective_chat upd)) (bot_id api), lookup_answer a2) # evs'"
    by (fastforce simp: rejected_not_mutating)
  from pass(2) obtain m1 where m1: "a1 = Inr m1" "status m1 \<in> set [''administrator'', ''creator'']"
    by (cases a1) (simp_all add: grants_def)
  from pass(4) obtain m2 where m2: "a2 = Inr m2" "status m2 = ''administrator''"
    by (cases a2) (simp_all add: grants_def)
  have "2 \<le> i"
  proof (rule ccontr)
    assume "\<not> 2 \<le> i"
    then have "i = 0 \<or> i = 1" by arith
    with assms(5) pass(5) show False
      by (auto simp: rejected_not_mutating)
  qed
  with pass(1,3,5) m1 m2 show ?thesis
    by (simp add: lookup_answer_def)
qed


theorem mutation_needs_both_lookups_witness:
  "''lock'' \<in> set privileged_commands \<and>
   map_of (setup_handlers (platform staff) busy noon) ''lock'' =
     Some (lock_group (platform staff)) \<and>
   lock_group (platform staff) (plain alice) [] =
     (Inr (), [(GetChatMember (- 1001) 7, Member \<lparr>member_id = 7, status = ''creator''\<rparr>),
               (GetChatMember (- 1001) 99, Member \<lparr>member_id = 99, status = ''administrator''\<rparr>),
               (SetChatPermissions (- 1001) lock_permissions, Done),
               (ReplyText (- 1001)
                  (locked @ '' Group has been locked! Only admins can send messages.'') None,
                Done)], []) \<and>
   is_mutating (SetChatPermissions (- 1001) lock_permissions) \<and>
   (\<exists>m1 p1 m2 p2.
      get_chat_member (platform staff) (- 1001) 7 [] = (Inr m1, p1) \<and>
      status m1 \<in> set [''administrator'', ''creator''] \<and>
      get_chat_member (platform staff) (- 1001) 99 p1 = (Inr m2, p2) \<and>
      status m2 = ''administrator'')"
proof -
  have cmd: "''lock'' \<in> set privileged_commands"
    by (simp add: privileged_commands_def)
  have h: "map_of (setup_handlers (platform staff) busy noon) ''lock'' =
     Some (lock_group (platform staff))"
    by (simp add: setup_handlers_def)
  have run: "lock_group (platform staff) (plain alice) [] =
     (Inr (), [(GetChatMember (- 1001) 7, Member \<lparr>member_id = 7, status = ''creator''\<rparr>),
               (GetChatMember (- 1001) 99, Member \<lparr>member_id = 99, status = ''administrator''\<rparr>),
               (SetChatPermissions (- 1001) lock_permissions, Done),
               (ReplyText (- 1001)
                  (locked @ '' Group has been locked! Only admins can send messages.'') None,
                Done)], [])"
    by (simp add: handler_defs small_group)
  have i: "(2::nat) < length
     [(GetChatMember (- 1001) 7, Member \<lparr>member_id = 7, status = ''creator''\<rparr>),
      (GetChatMember (- 1001) 99, Member \<lparr>member_id = 99, status = ''administrator''\<rparr>),
      (SetChatPermissions (- 1001) lock_permissions, Done),
      (ReplyText (- 1001)
         (locked @ '' Group has been locked! Only admins can send messages.'') None,
       Done)]"
    by simp
  have mut: "is_mutating (SetChatPermissions (- 1001) lock_permissions)"
    by (simp add: is_mutating_def)
  then have at: "is_mutating (fst
     ([(GetChatMember (- 1001) 7, Member \<lparr>member_id = 7, status = ''creator''\<rparr>),
      (GetChatMember (- 1001) 99, Member \<lparr>member_id = 99, status = ''administrator''\<rparr>),
      (SetChatPermissions (- 1001) lock_permissions, Done),
      (ReplyText (- 1001)
         (locked @ '' Group has been locked! Only admins can send messages.'') None,
       Done)] ! 2))"
    by simp
  have chat: "chat_id (effective_chat (plain alice)) = - 1001"
    "user_id (effective_user (plain alice)) = 7" "bot_id (platform staff) = 99"
    by (simp_all add: small_group)
  from mutation_needs_both_lookups [OF cmd h run i at, unfolded chat] cmd h run mut
  show ?thesis by blast
qed


text \<open>
  Claim C4, as amended. For each privileged command: when the lookup of the caller
  raises a platform error, \<^verbatim>\<open>is_admin\<close> returns \<open>False\<close>; when the caller is an admin
  and the lookup of the bot raises, \<^verbatim>\<open>is_bot_admin\<close> returns \<open>False\<close>. In both cases
  the handler makes no mutating call, and when the update carries a message its
  one remote call after the lookups is \<^verbatim>\<open>send_message\<close> of the rejection to the chat
  ("Only admins can use this command!", or a text that starts with
  "I need admin privileges to"); the handler returns when the platform takes the
  reply and raises the error of the platform when it does not.
\<close>

theorem lookup_error_fails_closed:
  assumes "cmd \<in> set privileged_commands"
    and "map_of (setup_handlers api db clk) cmd = Some h"
    and "h upd p = (r, evs, p')"
  shows "(\<forall>msg p1.
      get_chat_member api (chat_id (effective_chat upd)) (user_id (effective_user upd)) p = (Inl msg, p1) \<longrightarrow>
      is_admin api upd p =
        (Inr False, [(GetChatMember (chat_id (effective_chat upd)) (user_id (effective_user upd)), Error msg)], p1) \<and>
      \<not> list_ex (\<lambda>e. is_mutating (fst e)) evs \<and>
      (message upd \<noteq> None \<longrightarrow>
         (\<exists>a. send_message api (chat_id (effective_chat upd)) only_admins None p1 = (a, p') \<and>
            evs = [(GetChatMember (chat_id (effective_chat upd)) (user_id (effective_user upd)), Error msg),
                   (ReplyText (chat_id (effective_chat upd)) only_admins None, sent a (\<lambda>_. Done))] \<and>
            r = outcome a))) \<and>
    (\<forall>m1 p1 msg p2.
      get_chat_member api (chat_id (effective_chat upd)) (user_id (effective_user upd)) p = (Inr m1, p1) \<and>
      status m1 \<in> set [''administrator'', ''creator''] \<and>
      get_chat_member api (chat_id (effective_chat upd)) (bot_id api) p1 = (Inl msg, p2) \<longrightarrow>
      is_bot_admin api upd p1 =
        (Inr False, [(GetChatMember (chat_id (effective_chat upd)) (bot_id api), Error msg)], p2) \<and>
      \<not> list_ex (\<lambda>e. is_mutating (fst e)) evs \<and>
      (message upd \<noteq> None \<longrightarrow>
         (\<exists>text a. prefix need_privileges text \<and>
            send_message api (chat_id (effective_chat upd)) text None p2 = (a, p') \<and>
            evs = [(GetChatMember (chat_id (effective_chat upd)) (user_id (effective_user upd)), Member m1),
                   (GetChatMember (chat_id (effective_chat upd)) (bot_id api), Error msg),
                   (ReplyText (chat_id (effective_chat upd)) text None, sent a (\<lambda>_. Done))] \<and>
            r = outcome a)))"
proof (intro conjI allI impI; (elim conjE)?)
  from privileged_gate [OF assms(1,2), of upd] obtain refusal body
    where h: "h upd = gate api upd refusal body" and refusal: "prefix need_privileges refusal"
    by blast
  with assms(3) have run: "gate api upd refusal body p = (r, evs, p')" by simp
  {
    fix msg p1
    assume lookup: "get_chat_member api (chat_id (effective_chat upd)) (user_id (effective_user upd)) p = (Inl msg, p1)"
    then show "is_admin api upd p =
        (Inr False, [(GetChatMember (chat_id (effective_chat upd)) (user_id (effective_user upd)), Error msg)], p1)"
      by (rule is_admin_error)
    have "\<not> grants [''administrator'', ''creator''] (Inl msg)"
      by (simp add: grants_def)
    from gate_caller_rejected [OF run lookup this] obtain rest where
      reply: "reply_text api upd only_admins None p1 = (r, rest, p')"
      and evs: "evs = (GetChatMember (chat_id (effective_chat upd)) (user_id (effective_user upd)), Error msg) # rest"
      by (auto simp: lookup_answer_def)
    from reply_text_not_mutating [OF reply] evs
    show "\<not> list_ex (\<lambda>e. is_mutating (fst e)) evs"
      by (simp add: rejected_not_mutating)
    assume "message upd \<noteq> None"
    with reply_text_cases [OF reply] evs
    show "\<exists>a. send_message api (chat_id (effective_chat upd)) only_admins None p1 = (a, p') \<and>
            evs = [(GetChatMember (chat_id (effective_chat upd)) (user_id (effective_user upd)), Error msg),
                   (ReplyText (chat_id (effective_chat upd)) only_admins None, sent a (\<lambda>_. Done))] \<and>
            r = outcome a"
      by auto
  }
  {
    fix m1 p1 msg p2
    assume caller: "get_chat_member api (chat_id (effective_chat upd)) (user_id (effective_user upd)) p = (Inr m1, p1)"
      and role: "status m1 \<in> set [''administrator'', ''creator'']"
      and lookup: "get_chat_member api (chat_id (effective_chat upd)) (bot_id api) p1 = (Inl msg, p2)"
    from lookup show "is_bot_admin api upd p1 =
        (Inr False, [(GetChatMember (chat_id (effective_chat upd)) (bot_id api), Error msg)], p2)"
      by (rule is_bot_admin_error)
    from role have g1: "grants [''administrator'', ''creator''] (Inr m1)"
      by (simp add: grants_def)
    have g2: "\<not> grants [''administrator''] (Inl msg)"
      by (simp add: grants_def)
    from gate_bot_rejected [OF run caller g1 lookup g2] obtain rest where
      reply: "reply_text api upd refusal None p2 = (r, rest, p')"
      and evs: "evs = (GetChatMember (chat_id (effective_chat upd)) (user_id (effective_user upd)), Member m1) #
           (GetChatMember (chat_id (effective_chat upd)) (bot_id api), Error msg) # rest"
      by (auto simp: lookup_answer_def)
    from reply_text_not_mutating [OF reply] evs
    show "\<not> list_ex (\<lambda>e. is_mutating (fst e)) evs"
      by (simp add: rejected_not_mutating)
    assume "message upd \<noteq> None"
    with reply_text_cases [OF reply] evs refusal
    show "\<exists>text a. prefix need_privileges text \<and>
            send_message api (chat_id (effective_chat upd)) text None p2 = (a, p') \<and>
            evs = [(GetChatMember (chat_id (effective_chat upd)) (user_id (effective_user upd)), Member m1),
                   (GetChatMember (chat_id (effective_chat upd)) (bot_id api), Error msg),
                   (ReplyText (chat_id (effective_chat upd)) text None, sent a (\<lambda>_. Done))] \<and>
            r = outcome a"
      by auto
  }
qed


theorem lookup_error_fails_closed_witness:
  "''lock'' \<in> set privileged_commands \<and>
   map_of (setup_handlers (platform staff) busy noon) ''lock'' = Some (lock_group (platform staff)) \<and>
   message (plain carol) \<noteq> None \<and>
   get_chat_member (platform staff) (chat_id (effective_chat (plain carol)))
     (user_id (effective_user (plain carol))) [(- 1001, 5)] = (Inl ''User not found'', [(- 1001, 5)]) \<and>
   is_admin (platform staff) (plain carol) [(- 1001, 5)] =
     (Inr False, [(GetChatMember (- 1001) 9, Error ''User not found'')], [(- 1001, 5)]) \<and>
   lock_group (platform staff) (plain carol) [(- 1001, 5)] =
     (Inr (), [(GetChatMember (- 1001) 9, Error ''User not found''),
               (ReplyText (- 1001) only_admins None, Done)], [(- 1001, 5)]) \<and>
   map_of (setup_handlers (platform bot_hidden) busy noon) ''lock'' =
     Some (lock_group (platform bot_hidden)) \<and>
   get_chat_member (platform bot_hidden) (chat_id (effective_chat (plain alice)))
     (user_id (effective_user (plain alice))) [(- 1001, 5)] =
     (Inr \<lparr>member_id = 7, status = ''creator''\<rparr>, [(- 1001, 5)]) \<and>
   get_chat_member (platform bot_hidden) (chat_id (effective_chat (plain alice)))
     (bot_id (platform bot_hidden)) [(- 1001, 5)] =
     (Inl ''Bad Request: user not found'', [(- 1001, 5)]) \<and>
   is_bot_admin (platform bot_hidden) (plain alice) [(- 1001, 5)] =
     (Inr False, [(GetChatMember (- 1001) 99, Error ''Bad Request: user not found'')],
      [(- 1001, 5)]) \<and>
   lock_group (platform bot_hidden) (plain alice) [(- 1001, 5)] =
     (Inr (), [(GetChatMember (- 1001) 7, Member \<lparr>member_id = 7, status = ''creator''\<rparr>),
               (GetChatMember (- 1001) 99, Error ''Bad Request: user not found''),
               (ReplyText (- 1001) (need_privileges @ ''lock the group!'') None, Done)],
      [(- 1001, 5)])"
proof -
  have cmd: "''lock'' \<in> set privileged_commands"
    by (simp add: privileged_commands_def)
  have h: "map_of (setup_handlers (platform staff) busy noon) ''lock'' =
     Some (lock_group (platform staff))"
    by (simp add: setup_handlers_def)
  have present: "message (plain carol) \<noteq> None"
    by (simp add: small_group)
  have lookup: "get_chat_member (platform staff) (chat_id (effective_chat (plain carol)))
     (user_id (effective_user (plain carol))) [(- 1001, 5)] = (Inl ''User not found'', [(- 1001, 5)])"
    by (simp add: small_group)
  have run: "lock_group (platform staff) (plain carol) [(- 1001, 5)] =
     (Inr (), [(GetChatMember (- 1001) 9, Error ''User not found''),
               (ReplyText (- 1001) only_admins None, Done)], [(- 1001, 5)])"
    by (simp add: handler_defs small_group)
  have chat: "chat_id (effective_chat (plain carol)) = - 1001"
    "user_id (effective_user (plain carol)) = 9"
    by (simp_all add: small_group)
  from lookup_error_fails_closed [OF cmd h run, THEN conjunct1, rule_format, OF lookup]
  have first: "is_admin (platform staff) (plain carol) [(- 1001, 5)] =
     (Inr False, [(GetChatMember (- 1001) 9, Error ''User not found'')], [(- 1001, 5)])"
    unfolding chat by blast
  have h': "map_of (setup_handlers (platform bot_hidden) busy noon) ''lock'' =
     Some (lock_group (platform bot_hidden))"
    by (simp add: setup_handlers_def)
  have caller: "get_chat_member (platform bot_hidden) (chat_id (effective_chat (plain alice)))
     (user_id (effective_user (plain alice))) [(- 1001, 5)] =
     (Inr \<lparr>member_id = 7, status = ''creator''\<rparr>, [(- 1001, 5)])"
    by (simp add: small_group bot_hidden_def)
  have role: "status \<lparr>member_id = 7, status = ''creator''\<rparr> \<in> set [''administrator'', ''creator'']"
    by simp
  have robot: "get_chat_member (platform bot_hidden) (chat_id (effective_chat (plain alice)))
     (bot_id (platform bot_hidden)) [(- 1001, 5)] =
     (Inl ''Bad Request: user not found'', [(- 1001, 5)])"
    by (simp add: small_group bot_hidden_def)
  have run': "lock_group (platform bot_hidden) (plain alice) [(- 1001, 5)] =
     (Inr (), [(GetChatMember (- 1001) 7, Member \<lparr>member_id = 7, status = ''creator''\<rparr>),
               (GetChatMember (- 1001) 99, Error ''Bad Request: user not found''),
               (ReplyText (- 1001) (need_privileges @ ''lock the group!'') None, Done)],
      [(- 1001, 5)])"
    by (simp add: handler_defs small_group bot_hidden_def need_privileges_def)
  have chat': "chat_id (effective_chat (plain alice)) = - 1001"
    "bot_id (platform bot_hidden) = 99"
    by (simp_all add: small_group)
  from lookup_error_fails_closed [OF cmd h' run', THEN conjunct2, rule_format,
      OF conjI [OF caller conjI [OF role robot]]]
  have second: "is_bot_admin (platform bot_hidden) (plain alice) [(- 1001, 5)] =
     (Inr False, [(GetChatMember (- 1001) 99, Error ''Bad Request: user not found'')],
      [(- 1001, 5)])"
    unfolding chat' by blast
  from cmd h present lookup first run h' caller robot second run' show ?thesis
    by blast
qed


text \<open>
  The claim as stated, that the caller always gets a reply, fails in two ways. For a
  command in an edited message there is no \<^verbatim>\<open>update.message\<close>: the handler raises
  \<^verbatim>\<open>AttributeError\<close> after the failed lookup and sends nothing. And when the platform
  refuses the reply, nothing reaches the caller and the handler raises the error of
  the platform.
\<close>

theorem lookup_error_not_answered:
  "staff 9 = Inl ''User not found'' \<and>
   lock_group (platform staff) (edited carol) [] =
     (Inl AttributeError, [(GetChatMember (- 1001) 9, Error ''User not found'')], []) \<and>
   lock_group (silenced staff) (plain carol) [] =
     (Inl (TelegramError ''Forbidden: bot was kicked''),
      [(GetChatMember (- 1001) 9, Error ''User not found''),
       (ReplyText (- 1001) only_admins None, Error ''Forbidden: bot was kicked'')], [])"
  by (simp add: handler_defs small_group silenced_def)






subsection \<open>Errors of the platform\<close>

















subsection \<open>Kick and ban\<close>

text \<open>
  Claim C8. For a command of an admin that replies to a message of a user, in a chat
  where the bot is an administrator: when \<^verbatim>\<open>ban_chat_member\<close> and then
  \<^verbatim>\<open>unban_chat_member\<close> return for that chat and user, \<^verbatim>\<open>kick_user\<close> makes exactly
  these two mutating calls, the unban right after the ban, and only replies after
  them; when \<^verbatim>\<open>ban_chat_member\<close> returns, \<^verbatim>\<open>ban_user\<close> makes that one mutating call.
  The ban list belongs to the platform: on a platform where a ban that returns puts
  the user on the ban list of the chat, an unban that returns takes the user off it
  and a reply leaves the list as it is, the user is not on the ban list in the
  state \<^verbatim>\<open>kick_user\<close> leaves, and is on it in the state \<^verbatim>\<open>ban_user\<close> leaves.
\<close>

theorem kick_is_ban_then_unban:
  fixes banned :: "'p \<Rightarrow> (int \<times> int) set" and api :: "'p telegram"
  assumes ban_adds: "\<forall>c v q q'. ban_chat_member api c v q = (Inr (), q') \<longrightarrow>
      banned q' = insert (c, v) (banned q)"
    and unban_removes: "\<forall>c v q q'. unban_chat_member api c v q = (Inr (), q') \<longrightarrow>
      banned q' = banned q - {(c, v)}"
    and send_keeps: "\<forall>c t pm q a q'. send_message api c t pm q = (a, q') \<longrightarrow>
      banned q' = banned q"
    and target: "message upd = Some msg" "reply_to_message msg = Some replied"
      "from_user replied = Some target"
    and caller: "get_chat_member api (chat_id (effective_chat upd)) (user_id (effective_user upd)) p = (Inr m1, p1)"
      "status m1 \<in> set [''administrator'', ''creator'']"
    and robot: "get_chat_member api (chat_id (effective_chat upd)) (bot_id api) p1 = (Inr m2, p2)"
      "status m2 = ''administrator''"
  shows "(\<forall>p3 p4.
      ban_chat_member api (chat_id (effective_chat upd)) (user_id target) p2 = (Inr (), p3) \<and>
      unban_chat_member api (chat_id (effective_chat upd)) (user_id target) p3 = (Inr (), p4) \<longrightarrow>
      (\<exists>r rest p'.
         kick_user api upd p =
           (r, (GetChatMember (chat_id (effective_chat upd)) (user_id (effective_user upd)), Member m1) #
               (GetChatMember (chat_id (effective_chat upd)) (bot_id api), Member m2) #
               (BanChatMember (chat_id (effective_chat upd)) (user_id target), Done) #
               (UnbanChatMember (chat_id (effective_chat upd)) (user_id target), Done) # rest, p') \<and>
         \<not> list_ex (\<lambda>e. is_mutating (fst e)) rest \<and>
         replay api p4 rest = Some p' \<and>
         (chat_id (effective_chat upd), user_id target) \<notin> banned p')) \<and>
    (\<forall>p3.
      ban_chat_member api (chat_id (effective_chat upd)) (user_id target) p2 = (Inr (), p3) \<longrightarrow>
      (\<exists>r rest p'.
         ban_user api upd p =
           (r, (GetChatMember (chat_id (effective_chat upd)) (user_id (effective_user upd)), Member m1) #
               (GetChatMember (chat_id (effective_chat upd)) (bot_id api), Member m2) #
               (BanChatMember (chat_id (effective_chat upd)) (user_id target), Done) # rest, p') \<and>
         \<not> list_ex (\<lambda>e. is_mutating (fst e)) rest \<and>
         replay api p3 rest = Some p' \<and>
         (chat_id (effective_chat upd), user_id target) \<in> banned p'))"
proof (intro conjI allI impI; (elim conjE)?)
  let ?c = "chat_id (effective_chat upd)"
  let ?v = "user_id target"
  have admin: "status m1 = ''administrator'' \<or> status m1 = ''creator''"
    using caller(2) by auto
  {
    fix p3 p4
    assume ban: "ban_chat_member api ?c ?v p2 = (Inr (), p3)"
      and unban: "unban_chat_member api ?c ?v p3 = (Inr (), p4)"
    let ?ok = "boot @ '' User '' @ first_name target @ '' has been kicked from the group.''"
    obtain a p5 where ok: "send_message api ?c ?ok None p4 = (a, p5)"
      by (cases "send_message api ?c ?ok None p4")
    have gone: "(?c, ?v) \<notin> banned p4"
      using unban_removes [rule_format, OF unban] by simp
    show "\<exists>r rest p'.
         kick_user api upd p =
           (r, (GetChatMember ?c (user_id (effective_user upd)), Member m1) #
               (GetChatMember ?c (bot_id api), Member m2) #
               (BanChatMember ?c ?v, Done) # (UnbanChatMember ?c ?v, Done) # rest, p') \<and>
         \<not> list_ex (\<lambda>e. is_mutating (fst e)) rest \<and>
         replay api p4 rest = Some p' \<and> (?c, ?v) \<notin> banned p'"
    proof (cases a)
      case (Inr x)
      with ok have run: "kick_user api upd p =
           (Inr (), [(GetChatMember ?c (user_id (effective_user upd)), Member m1),
               (GetChatMember ?c (bot_id api), Member m2),
               (BanChatMember ?c ?v, Done), (UnbanChatMember ?c ?v, Done),
               (ReplyText ?c ?ok None, Done)], p5)"
        using target caller(1) admin robot ban unban
        by (simp add: kick_user_def is_admin_def is_bot_admin_def run_defs)
      have rp: "replay api p4 [(ReplyText ?c ?ok None, Done)] = Some p5"
        using replay_reply [OF ok] Inr by (simp add: sent_def)
      have bn: "(?c, ?v) \<notin> banned p5"
        using send_keeps [rule_format, OF ok] gone by simp
      show ?thesis
      proof (intro exI conjI)
        show "kick_user api upd p =
           (Inr (), [(GetChatMember ?c (user_id (effective_user upd)), Member m1),
               (GetChatMember ?c (bot_id api), Member m2),
               (BanChatMember ?c ?v, Done), (UnbanChatMember ?c ?v, Done),
               (ReplyText ?c ?ok None, Done)], p5)"
          using run by simp
        show "\<not> list_ex (\<lambda>e. is_mutating (fst e))
          [(ReplyText ?c ?ok None, Done)]"
          by (simp add: rejected_not_mutating)
        show "replay api p4 [(ReplyText ?c ?ok None, Done)] = Some p5"
          by (rule rp)
        show "(?c, ?v) \<notin> banned p5"
          by (rule bn)
      qed
    next
      case (Inl e)
      let ?no = "cross_mark @ '' Failed to kick user: '' @ e"
      obtain a' p6 where no: "send_message api ?c ?no None p5 = (a', p6)"
        by (cases "send_message api ?c ?no None p5")
      from ok Inl no have run: "kick_user api upd p =
           (outcome a', [(GetChatMember ?c (user_id (effective_user upd)), Member m1),
               (GetChatMember ?c (bot_id api), Member m2),
               (BanChatMember ?c ?v, Done), (UnbanChatMember ?c ?v, Done),
               (ReplyText ?c ?ok None, Error e),
               (ReplyText ?c ?no None, sent a' (\<lambda>_. Done))], p6)"
        using target caller(1) admin robot ban unban
        by (cases a')
          (simp_all add: kick_user_def is_admin_def is_bot_admin_def run_defs outcome_def sent_def)
      have rp: "replay api p4 [(ReplyText ?c ?ok None, Error e),
               (ReplyText ?c ?no None, sent a' (\<lambda>_. Done))] = Some p6"
        using ok Inl no by (simp add: perform_def sent_def)
      have bn: "(?c, ?v) \<notin> banned p6"
        using send_keeps [rule_format, OF ok] send_keeps [rule_format, OF no] gone by simp
      show ?thesis
      proof (intro exI conjI)
        show "kick_user api upd p =
           (outcome a', [(GetChatMember ?c (user_id (effective_user upd)), Member m1),
               (GetChatMember ?c (bot_id api), Member m2),
               (BanChatMember ?c ?v, Done), (UnbanChatMember ?c ?v, Done),
               (ReplyText ?c ?ok None, Error e),
               (ReplyText ?c ?no None, sent a' (\<lambda>_. Done))], p6)"
          using run by simp
        show "\<not> list_ex (\<lambda>e. is_mutating (fst e))
          [(ReplyText ?c ?ok None, Error e),
               (ReplyText ?c ?no None, sent a' (\<lambda>_. Done))]"
          by (simp add: rejected_not_mutating)
        show "replay api p4 [(ReplyText ?c ?ok None, Error e),
               (ReplyText ?c ?no None, sent a' (\<lambda>_. Done))] = Some p6"
          by (rule rp)
        show "(?c, ?v) \<notin> banned p6"
          by (rule bn)
      qed
    qed
  }
  {
    fix p3
    assume ban: "ban_chat_member api ?c ?v p2 = (Inr (), p3)"
    let ?ok = "no_entry @ '' User '' @ first_name target @ '' has been banned from the group.''"
    obtain a p5 where ok: "send_message api ?c ?ok None p3 = (a, p5)"
      by (cases "send_message api ?c ?ok None p3")
    have there: "(?c, ?v) \<in> banned p3"
      using ban_adds [rule_format, OF ban] by simp
    show "\<exists>r rest p'.
         ban_user api upd p =
           (r, (GetChatMember ?c (user_id (effective_user upd)), Member m1) #
               (GetChatMember ?c (bot_id api), Member m2) #
               (BanChatMember ?c ?v, Done) # rest, p') \<and>
         \<not> list_ex (\<lambda>e. is_mutating (fst e)) rest \<and>
         replay api p3 rest = Some p' \<and> (?c, ?v) \<in> banned p'"
    proof (cases a)
      case (Inr x)
      with ok have run: "ban_user api upd p =
           (Inr (), [(GetChatMember ?c (user_id (effective_user upd)), Member m1),
               (GetChatMember ?c (bot_id api), Member m2),
               (BanChatMember ?c ?v, Done),
               (ReplyText ?c ?ok None, Done)], p5)"
        using target caller(1) admin robot ban
        by (simp add: ban_user_def is_admin_def is_bot_admin_def run_defs)
      have rp: "replay api p3 [(ReplyText ?c ?ok None, Done)] = Some p5"
        using replay_reply [OF ok] Inr by (simp add: sent_def)
      have bn: "(?c, ?v) \<in> banned p5"
        using send_keeps [rule_format, OF ok] there by simp
      show ?thesis
      proof (intro exI conjI)
        show "ban_user api upd p =
           (Inr (), [(GetChatMember ?c (user_id (effective_user upd)), Member m1),
               (GetChatMember ?c (bot_id api), Member m2),
               (BanChatMember ?c ?v, Done),
               (ReplyText ?c ?ok None, Done)], p5)"
          using run by simp
        show "\<not> list_ex (\<lambda>e. is_mutating (fst e))
          [(ReplyText ?c ?ok None, Done)]"
          by (simp add: rejected_not_mutating)
        show "replay api p3 [(ReplyText ?c ?ok None, Done)] = Some p5"
          by (rule rp)
        show "(?c, ?v) \<in> banned p5"
          by (rule bn)
      qed
    next
      case (Inl e)
      let ?no = "cross_mark @ '' Failed to ban user: '' @ e"
      obtain a' p6 where no: "send_message api ?c ?no None p5 = (a', p6)"
        by (cases "send_message api ?c ?no None p5")
      from ok Inl no have run: "ban_user api upd p =
           (outcome a', [(GetChatMember ?c (user_id (effective_user upd)), Member m1),
               (GetChatMember ?c (bot_id api), Member m2),
               (BanChatMember ?c ?v, Done),
               (ReplyText ?c ?ok None, Error e),
               (ReplyText ?c ?no None, sent a' (\<lambda>_. Done))], p6)"
        using target caller(1) admin robot ban
        by (cases a')
          (simp_all add: ban_user_def is_admin_def is_bot_admin_def run_defs outcome_def sent_def)
      have rp: "replay api p3 [(ReplyText ?c ?ok None, Error e),
               (ReplyText ?c ?no None, sent a' (\<lambda>_. Done))] = Some p6"
        using ok Inl no by (simp add: perform_def sent_def)
      have bn: "(?c, ?v) \<in> banned p6"
        using send_keeps [rule_format, OF ok] send_keeps [rule_format, OF no] there by simp
      show ?thesis
      proof (intro exI conjI)
        show "ban_user api upd p =
           (outcome a', [(GetChatMember ?c (user_id (effective_user upd)), Member m1),
               (GetChatMember ?c (bot_id api), Member m2),
               (BanChatMember ?c ?v, Done),
               (ReplyText ?c ?ok None, Error e),
               (ReplyText ?c ?no None, sent a' (\<lambda>_. Done))], p6)"
          using run by simp
        show "\<not> list_ex (\<lambda>e. is_mutating (fst e))
          [(ReplyText ?c ?ok None, Error e),
               (ReplyText ?c ?no None, sent a' (\<lambda>_. Done))]"
          by (simp add: rejected_not_mutating)
        show "replay api p3 [(ReplyText ?c ?ok None, Error e),
               (ReplyText ?c ?no None, sent a' (\<lambda>_. Done))] = Some p6"
          by (rule rp)
        show "(?c, ?v) \<in> banned p6"
          by (rule bn)
      qed
    qed
  }
qed


theorem kick_is_ban_then_unban_witness:
  "message (reply_to alice bob) = Some \<lparr>reply_to_message = Some \<lparr>from_user = Some bob\<rparr>\<rparr> \<and>
   get_chat_member (platform staff) (- 1001) 7 [(- 1001, 8), (- 1001, 5)] =
     (Inr \<lparr>member_id = 7, status = ''creator''\<rparr>, [(- 1001, 8), (- 1001, 5)]) \<and>
   get_chat_member (platform staff) (- 1001) 99 [(- 1001, 8), (- 1001, 5)] =
     (Inr \<lparr>member_id = 99, status = ''administrator''\<rparr>, [(- 1001, 8), (- 1001, 5)]) \<and>
   ban_chat_member (platform staff) (- 1001) 8 [(- 1001, 8), (- 1001, 5)] =
     (Inr (), [(- 1001, 8), (- 1001, 8), (- 1001, 5)]) \<and>
   unban_chat_member (platform staff) (- 1001) 8 [(- 1001, 8), (- 1001, 8), (- 1001, 5)] =
     (Inr (), [(- 1001, 5)]) \<and>
   kick_user (platform staff) (reply_to alice bob) [(- 1001, 8), (- 1001, 5)] =
     (Inr (), [(GetChatMember (- 1001) 7, Member \<lparr>member_id = 7, status = ''creator''\<rparr>),
               (GetChatMember (- 1001) 99, Member \<lparr>member_id = 99, status = ''administrator''\<rparr>),
               (BanChatMember (- 1001) 8, Done), (UnbanChatMember (- 1001) 8, Done),
               (ReplyText (- 1001) (boot @ '' User Bob has been kicked from the group.'') None,
                Done)], [(- 1001, 5)]) \<and>
   ((- 1001, 8) :: int \<times> int) \<notin> set [(- 1001, 5)] \<and>
   ban_user (platform staff) (reply_to alice bob) [(- 1001, 5)] =
     (Inr (), [(GetChatMember (- 1001) 7, Member \<lparr>member_id = 7, status = ''creator''\<rparr>),
               (GetChatMember (- 1001) 99, Member \<lparr>member_id = 99, status = ''administrator''\<rparr>),
               (BanChatMember (- 1001) 8, Done),
               (ReplyText (- 1001) (no_entry @ '' User Bob has been banned from the group.'') None,
                Done)], [(- 1001, 8), (- 1001, 5)]) \<and>
   ((- 1001, 8) :: int \<times> int) \<in> set [(- 1001, 8), (- 1001, 5)]"
proof -
  have ban_adds: "\<forall>c v q q'. ban_chat_member (platform staff) c v q = (Inr (), q') \<longrightarrow>
      set q' = insert (c, v) (set q)"
    by (auto simp: platform_def)
  have unban_removes: "\<forall>c v q q'. unban_chat_member (platform staff) c v q = (Inr (), q') \<longrightarrow>
      set q' = set q - {(c, v)}"
    by (auto simp: platform_def)
  have send_keeps: "\<forall>c t pm q a q'. send_message (platform staff) c t pm q = (a, q') \<longrightarrow>
      set q' = set q"
    by (auto simp: platform_def)
  have target: "message (reply_to alice bob) = Some \<lparr>reply_to_message = Some \<lparr>from_user = Some bob\<rparr>\<rparr>"
    "reply_to_message \<lparr>reply_to_message = Some \<lparr>from_user = Some bob\<rparr>\<rparr> = Some \<lparr>from_user = Some bob\<rparr>"
    "from_user \<lparr>from_user = Some bob\<rparr> = Some bob"
    by (simp_all add: small_group)
  have chat: "chat_id (effective_chat (reply_to alice bob)) = - 1001"
    "user_id (effective_user (reply_to alice bob)) = 7" "bot_id (platform staff) = 99"
    "user_id bob = 8"
    by (simp_all add: small_group)
  have role: "status \<lparr>member_id = 7, status = ''creator''\<rparr> \<in> set [''administrator'', ''creator'']"
    "status \<lparr>member_id = 99, status = ''administrator''\<rparr> = ''administrator''"
    by simp_all
  have caller: "get_chat_member (platform staff) (- 1001) 7 q =
     (Inr \<lparr>member_id = 7, status = ''creator''\<rparr>, q)" for q
    by (simp add: small_group)
  have robot: "get_chat_member (platform staff) (- 1001) 99 q =
     (Inr \<lparr>member_id = 99, status = ''administrator''\<rparr>, q)" for q
    by (simp add: small_group)
  have ban: "ban_chat_member (platform staff) (- 1001) 8 q = (Inr (), (- 1001, 8) # q)" for q
    by (simp add: small_group)
  have unban: "unban_chat_member (platform staff) (- 1001) 8 [(- 1001, 8), (- 1001, 8), (- 1001, 5)] =
     (Inr (), [(- 1001, 5)])"
    by (simp add: small_group)
  have kick: "kick_user (platform staff) (reply_to alice bob) [(- 1001, 8), (- 1001, 5)] =
     (Inr (), [(GetChatMember (- 1001) 7, Member \<lparr>member_id = 7, status = ''creator''\<rparr>),
               (GetChatMember (- 1001) 99, Member \<lparr>member_id = 99, status = ''administrator''\<rparr>),
               (BanChatMember (- 1001) 8, Done), (UnbanChatMember (- 1001) 8, Done),
               (ReplyText (- 1001) (boot @ '' User Bob has been kicked from the group.'') None,
                Done)], [(- 1001, 5)])"
    by (simp add: handler_defs small_group)
  have banrun: "ban_user (platform staff) (reply_to alice bob) [(- 1001, 5)] =
     (Inr (), [(GetChatMember (- 1001) 7, Member \<lparr>member_id = 7, status = ''creator''\<rparr>),
               (GetChatMember (- 1001) 99, Member \<lparr>member_id = 99, status = ''administrator''\<rparr>),
               (BanChatMember (- 1001) 8, Done),
               (ReplyText (- 1001) (no_entry @ '' User Bob has been banned from the group.'') None,
                Done)], [(- 1001, 8), (- 1001, 5)])"
    by (simp add: handler_defs small_group)
  from kick_is_ban_then_unban [where banned = set and api = "platform staff"
      and upd = "reply_to alice bob" and p = "[(- 1001, 8), (- 1001, 5)]",
      OF ban_adds unban_removes send_keeps target, unfolded chat,
      OF caller role(1) robot role(2), THEN conjunct1, rule_format,
      OF conjI [OF ban unban]] kick
  have gone: "((- 1001, 8) :: int \<times> int) \<notin> set [(- 1001, 5)]"
    by auto
  from kick_is_ban_then_unban [where banned = set and api = "platform staff"
      and upd = "reply_to alice bob" and p = "[(- 1001, 5)]",
      OF ban_adds unban_removes send_keeps target, unfolded chat,
      OF caller role(1) robot role(2), THEN conjunct2, rule_format, OF ban] banrun
  have there: "((- 1001, 8) :: int \<times> int) \<in> set [(- 1001, 8), (- 1001, 5)]"
    by auto
  from target(1) caller robot ban unban kick gone banrun there show ?thesis
    by blast
qed


end
